theory Spec2Isabelle
  imports Complex_Main "HOL-Library.Sublist"
begin

section \<open>JSON Web Token handling (jose.c)\<close>

text \<open>
  A shallow embedding of \<^verbatim>\<open>src/jose.c\<close>: the JWK and JWT entities, the
  algorithm lookup, compact serialization of unsigned tokens, the key trial loops of
  decryption and signature verification, kid derivation and the x5c import.

  Conventions. A nullable C pointer is an \<open>option\<close>; a \<^verbatim>\<open>char *\<close> that the
  code hands to \<^verbatim>\<open>strcmp\<close> or \<^verbatim>\<open>strlen\<close> without a test is an \<open>option\<close>
  too, and the call on \<open>None\<close> is the outcome \<open>Fault NullDeref\<close>. The libraries the file
  calls (cjose, jansson, OpenSSL) are a record of functions, \<open>ext\<close>, so that every
  call of a primitive is visible, and the calls a function makes are returned in order
  as a trace. Memory exhaustion is not modelled: \<^verbatim>\<open>apr_pcalloc\<close>, \<^verbatim>\<open>BIO_new\<close>
  and the copies of strings always succeed.
\<close>

subsection \<open>C strings and the outcome of a call\<close>

type_synonym bytes = string

text \<open>\<^verbatim>\<open>strncmp(a, b, n) == 0\<close> on NUL-terminated strings: the first \<open>n\<close>
  characters agree (a shorter string ends the comparison at its NUL).\<close>

definition strncmp_eq :: "string \<Rightarrow> string \<Rightarrow> nat \<Rightarrow> bool" where
  "strncmp_eq a b n = (take n a = take n b)"

text \<open>
  A call either returns, or it does something to which C gives no meaning, after which
  nothing is known of the run: it dereferences a null pointer where the source has no
  test for it, reads a local variable that nothing has written, reads past the end of
  a string, or hands \<^verbatim>\<open>realloc\<close> a block that \<^verbatim>\<open>malloc\<close> did not return.
\<close>

datatype fault = NullDeref | UninitRead | OverRead | BadRealloc

datatype 'a run = Fault fault | Returns 'a

subsection \<open>Algorithm identifiers and key types\<close>

text \<open>
  Modelled from the spec: the algorithm identifiers and the key type enumeration are
  macros and an enum of cjose's \<^verbatim>\<open>header.h\<close> and \<^verbatim>\<open>jwk.h\<close>, which are not
  under src/. The identifiers are the JOSE names the spec lists; the key types are
  cjose's \<^verbatim>\<open>CJOSE_JWK_KTY_RSA = 1, CJOSE_JWK_KTY_EC, CJOSE_JWK_KTY_OCT\<close>.
\<close>

definition CJOSE_HDR_ALG :: string where "CJOSE_HDR_ALG = ''alg''"
definition CJOSE_HDR_ENC :: string where "CJOSE_HDR_ENC = ''enc''"
definition CJOSE_HDR_KID :: string where "CJOSE_HDR_KID = ''kid''"

definition CJOSE_HDR_ALG_NONE :: string where "CJOSE_HDR_ALG_NONE = ''none''"
definition CJOSE_HDR_ALG_DIR :: string where "CJOSE_HDR_ALG_DIR = ''dir''"
definition CJOSE_HDR_ALG_RSA_OAEP :: string where "CJOSE_HDR_ALG_RSA_OAEP = ''RSA-OAEP''"
definition CJOSE_HDR_ALG_RSA1_5 :: string where "CJOSE_HDR_ALG_RSA1_5 = ''RSA1_5''"
definition CJOSE_HDR_ALG_A128KW :: string where "CJOSE_HDR_ALG_A128KW = ''A128KW''"
definition CJOSE_HDR_ALG_A192KW :: string where "CJOSE_HDR_ALG_A192KW = ''A192KW''"
definition CJOSE_HDR_ALG_A256KW :: string where "CJOSE_HDR_ALG_A256KW = ''A256KW''"

definition CJOSE_JWK_KTY_RSA :: int where "CJOSE_JWK_KTY_RSA = 1"
definition CJOSE_JWK_KTY_EC :: int where "CJOSE_JWK_KTY_EC = 2"
definition CJOSE_JWK_KTY_OCT :: int where "CJOSE_JWK_KTY_OCT = 3"

text \<open>
  \<^verbatim>\<open>oidc_alg2kty\<close> (jose.c 215-236). The first argument is the compile-time flag
  \<^verbatim>\<open>OIDC_JOSE_EC_SUPPORT\<close>. The tests are the source's, in its order: exact matches
  with \<^verbatim>\<open>strcmp\<close>, two-character prefix matches with \<^verbatim>\<open>strncmp(alg, "RS", 2)\<close>.
\<close>

definition oidc_alg2kty :: "bool \<Rightarrow> string \<Rightarrow> int" where
  "oidc_alg2kty ec_support alg =
     (if alg = CJOSE_HDR_ALG_DIR then CJOSE_JWK_KTY_OCT
      else if strncmp_eq alg ''RS'' 2 then CJOSE_JWK_KTY_RSA
      else if strncmp_eq alg ''PS'' 2 then CJOSE_JWK_KTY_RSA
      else if strncmp_eq alg ''HS'' 2 then CJOSE_JWK_KTY_OCT
      else if ec_support \<and> strncmp_eq alg ''ES'' 2 then CJOSE_JWK_KTY_EC
      else if alg = CJOSE_HDR_ALG_A128KW \<or> alg = CJOSE_HDR_ALG_A192KW
              \<or> alg = CJOSE_HDR_ALG_A256KW then CJOSE_JWK_KTY_OCT
      else if alg = CJOSE_HDR_ALG_RSA1_5 \<or> alg = CJOSE_HDR_ALG_RSA_OAEP
        then CJOSE_JWK_KTY_RSA
      else - 1)"

text \<open>The recognized set as the specification lists it: dir, HS256/384/512 and the
  three AES key wraps, of the octet key type; RS256/384/512, PS256/384/512, RSA1_5 and
  RSA-OAEP, of the RSA key type; ES256/384/512 when EC support is compiled in.\<close>

definition recognized_algorithms :: "bool \<Rightarrow> string set" where
  "recognized_algorithms ec_support =
     {''dir'', ''HS256'', ''HS384'', ''HS512'', ''A128KW'', ''A192KW'', ''A256KW''}
     \<union> {''RS256'', ''RS384'', ''RS512'', ''PS256'', ''PS384'', ''PS512'',
        ''RSA1_5'', ''RSA-OAEP''}
     \<union> (if ec_support then {''ES256'', ''ES384'', ''ES512''} else {})"

subsection \<open>JSON values (jansson) and base64 (cjose, OpenSSL)\<close>

text \<open>
  Modelled from the spec: the structured-document provider is jansson, whose sources
  are not under src/. A JSON value is a tree of null, booleans, numbers, strings,
  arrays and objects; an object keeps its members in insertion order
  (\<^verbatim>\<open>JSON_PRESERVE_ORDER\<close>). \<^verbatim>\<open>json_dumps\<close> is written out for everything but
  the text of a real number, which is the argument \<open>rt\<close> (jansson prints a double with
  the C library). The flag \<open>c\<close> is \<^verbatim>\<open>JSON_COMPACT\<close>: separators without a blank.
\<close>

datatype json =
    JNull
  | JTrue
  | JFalse
  | JInteger int
  | JReal real
  | JString string
  | JArray "json list"
  | JObject "(string \<times> json) list"

definition json_is_object :: "json \<Rightarrow> bool" where
  "json_is_object j = (case j of JObject kvs \<Rightarrow> True | _ \<Rightarrow> False)"

definition json_is_array :: "json \<Rightarrow> bool" where
  "json_is_array j = (case j of JArray xs \<Rightarrow> True | _ \<Rightarrow> False)"

definition json_object_get :: "json \<Rightarrow> string \<Rightarrow> json option" where
  "json_object_get j key = (case j of JObject kvs \<Rightarrow> map_of kvs key | _ \<Rightarrow> None)"

definition json_array_get :: "json \<Rightarrow> nat \<Rightarrow> json option" where
  "json_array_get j i =
     (case j of JArray xs \<Rightarrow> (if i < length xs then Some (xs ! i) else None) | _ \<Rightarrow> None)"

definition json_string_value :: "json \<Rightarrow> string option" where
  "json_string_value j = (case j of JString s \<Rightarrow> Some s | _ \<Rightarrow> None)"

definition json_number_value :: "json \<Rightarrow> real option" where
  "json_number_value j =
     (case j of JInteger i \<Rightarrow> Some (real_of_int i) | JReal r \<Rightarrow> Some r | _ \<Rightarrow> None)"

definition hex_digit :: "nat \<Rightarrow> char" where
  "hex_digit n = ''0123456789ABCDEF'' ! (n mod 16)"

definition dump_char :: "char \<Rightarrow> string" where
  "dump_char c =
     (if c = CHR 0x5C then [CHR 0x5C, CHR 0x5C]
      else if c = CHR 0x22 then [CHR 0x5C, CHR 0x22]
      else if c = CHR 0x08 then [CHR 0x5C, CHR ''b'']
      else if c = CHR 0x0C then [CHR 0x5C, CHR ''f'']
      else if c = CHR 0x0A then [CHR 0x5C, CHR ''n'']
      else if c = CHR 0x0D then [CHR 0x5C, CHR ''r'']
      else if c = CHR 0x09 then [CHR 0x5C, CHR ''t'']
      else if (of_char c :: nat) < 32
        then [CHR 0x5C, CHR ''u'', CHR ''0'', CHR ''0'',
              hex_digit (of_char c div 16), hex_digit (of_char c mod 16)]
      else [c])"

definition dump_string :: "string \<Rightarrow> string" where
  "dump_string s = [CHR 0x22] @ concat (map dump_char s) @ [CHR 0x22]"

function dec_digits :: "nat \<Rightarrow> string" where
  "dec_digits n =
     (if n < 10 then [''0123456789'' ! n]
      else dec_digits (n div 10) @ [''0123456789'' ! (n mod 10)])"
  by pat_completeness auto
termination
  by (relation "measure id") auto

declare dec_digits.simps [simp del]

definition dump_integer :: "int \<Rightarrow> string" where
  "dump_integer i = (if i < 0 then ''-'' @ dec_digits (nat (- i)) else dec_digits (nat i))"

fun dump_value :: "(real \<Rightarrow> string) \<Rightarrow> bool \<Rightarrow> json \<Rightarrow> string"
  and dump_array :: "(real \<Rightarrow> string) \<Rightarrow> bool \<Rightarrow> json list \<Rightarrow> string"
  and dump_object :: "(real \<Rightarrow> string) \<Rightarrow> bool \<Rightarrow> (string \<times> json) list \<Rightarrow> string"
where
  "dump_value rt c JNull = ''null''"
| "dump_value rt c JTrue = ''true''"
| "dump_value rt c JFalse = ''false''"
| "dump_value rt c (JInteger i) = dump_integer i"
| "dump_value rt c (JReal r) = rt r"
| "dump_value rt c (JString s) = dump_string s"
| "dump_value rt c (JArray xs) = ''['' @ dump_array rt c xs @ '']''"
| "dump_value rt c (JObject kvs) = ''{'' @ dump_object rt c kvs @ ''}''"
| "dump_array rt c [] = []"
| "dump_array rt c [x] = dump_value rt c x"
| "dump_array rt c (x # y # ys) =
     dump_value rt c x @ (if c then '','' else '', '') @ dump_array rt c (y # ys)"
| "dump_object rt c [] = []"
| "dump_object rt c [(k, v)] =
     dump_string k @ (if c then '':'' else '': '') @ dump_value rt c v"
| "dump_object rt c ((k, v) # kv # kvs) =
     dump_string k @ (if c then '':'' else '': '') @ dump_value rt c v
     @ (if c then '','' else '', '') @ dump_object rt c (kv # kvs)"

text \<open>\<^verbatim>\<open>json_dumps(json, flags)\<close>: \<open>NULL\<close> for a null pointer, and for a root that is
  neither an array nor an object unless \<^verbatim>\<open>JSON_ENCODE_ANY\<close> is given.\<close>

definition json_dumps :: "(real \<Rightarrow> string) \<Rightarrow> bool \<Rightarrow> bool \<Rightarrow> json option \<Rightarrow> string option"
  where
  "json_dumps rt c encode_any jroot =
     (case jroot of
        None \<Rightarrow> None
      | Some j \<Rightarrow>
          (if encode_any \<or> json_is_array j \<or> json_is_object j
           then Some (dump_value rt c j) else None))"

text \<open>
  Modelled from the spec: \<^verbatim>\<open>cjose_base64url_encode\<close> is the URL-safe base64 of
  RFC 4648 without padding, \<^verbatim>\<open>EVP_EncodeBlock\<close> the standard alphabet with padding;
  both belong to libraries that are not under src/. A byte is a \<open>char\<close>, so every
  index into the 64-character alphabet below is in range.
\<close>

definition b64_std :: string where
  "b64_std = ''ABCDEFGHIJKLMNOPQRSTUVWXYZabcdefghijklmnopqrstuvwxyz0123456789+/''"

definition b64_url :: string where
  "b64_url = ''ABCDEFGHIJKLMNOPQRSTUVWXYZabcdefghijklmnopqrstuvwxyz0123456789-_''"

fun b64_groups :: "string \<Rightarrow> string \<Rightarrow> nat list \<Rightarrow> string" where
  "b64_groups abc pad [] = []"
| "b64_groups abc pad [a] =
     [abc ! (a div 4), abc ! ((a mod 4) * 16)] @ pad @ pad"
| "b64_groups abc pad [a, b] =
     [abc ! (a div 4), abc ! ((a mod 4) * 16 + b div 16), abc ! ((b mod 16) * 4)] @ pad"
| "b64_groups abc pad (a # b # c # rest) =
     [abc ! (a div 4), abc ! ((a mod 4) * 16 + b div 16),
      abc ! ((b mod 16) * 4 + c div 64), abc ! (c mod 64)] @ b64_groups abc pad rest"

definition cjose_base64url_encode :: "bytes \<Rightarrow> string" where
  "cjose_base64url_encode input = b64_groups b64_url [] (map of_char input)"

definition EVP_EncodeBlock :: "bytes \<Rightarrow> string" where
  "EVP_EncodeBlock input = b64_groups b64_std ''='' (map of_char input)"

text \<open>A byte buffer read as a C string ends at its first NUL.\<close>

definition c_str :: "bytes \<Rightarrow> string" where
  "c_str b = takeWhile (\<lambda>c. c \<noteq> CHR 0x00) b"

subsection \<open>The objects of cjose and OpenSSL\<close>

text \<open>
  Modelled from the spec: the objects and calls of the primitive provider (cjose) and
  of the certificate and key codec (OpenSSL) are declared in headers that are not
  under src/. An object is a record of what jose.c reads from it; a call whose
  result depends on cryptography or on parsing is a field of \<open>ext\<close> below.

  \<^verbatim>\<open>cjose_err\<close> is the library's error code. A protected header
  (\<^verbatim>\<open>cjose_header_t\<close>) is a JSON object, and \<^verbatim>\<open>cjose_header_get\<close> answers the
  string value of an attribute, \<open>NULL\<close> when it is missing or not a string.
\<close>

datatype cjose_err =
    CJOSE_ERR_NONE
  | CJOSE_ERR_INVALID_ARG
  | CJOSE_ERR_INVALID_STATE
  | CJOSE_ERR_NO_MEMORY
  | CJOSE_ERR_CRYPTO

type_synonym cjose_header = "(string \<times> json) list"

definition cjose_header_get :: "cjose_header \<Rightarrow> string \<Rightarrow> string option" where
  "cjose_header_get hdr attr =
     (case map_of hdr attr of Some (JString s) \<Rightarrow> Some s | _ \<Rightarrow> None)"

record cjose_jwk_rsa_keyspec =
  ks_e :: bytes
  ks_n :: bytes
  ks_d :: "bytes option"

datatype cjose_keydata =
    KeyOct bytes
  | KeyRSA cjose_jwk_rsa_keyspec
  | KeyOther bytes

record cjose_jwk =
  cj_kty :: int
  cj_kid :: "string option"
  cj_keydata :: cjose_keydata

definition cjose_jwk_get_kid :: "cjose_jwk \<Rightarrow> string option" where
  "cjose_jwk_get_kid k = cj_kid k"

definition cjose_jwk_get_kty :: "cjose_jwk \<Rightarrow> int" where
  "cjose_jwk_get_kty k = cj_kty k"

text \<open>\<^verbatim>\<open>cjose_jwk_set_kid\<close> stores a copy of the identifier in the key object; the
  library fails only on a null argument or without memory.\<close>

definition cjose_jwk_set_kid :: "cjose_jwk \<Rightarrow> string \<Rightarrow> cjose_err + cjose_jwk" where
  "cjose_jwk_set_kid k kid = Inr (k\<lparr>cj_kid := Some kid\<rparr>)"

record cjose_jws =
  jws_hdr :: cjose_header
  jws_cser :: string

record cjose_jwe =
  jwe_hdr :: cjose_header
  jwe_cser :: string

definition cjose_jws_get_protected :: "cjose_jws \<Rightarrow> cjose_header" where
  "cjose_jws_get_protected jws = jws_hdr jws"

definition cjose_jwe_get_protected :: "cjose_jwe \<Rightarrow> cjose_header" where
  "cjose_jwe_get_protected jwe = jwe_hdr jwe"

datatype x509 = X509 bytes

datatype evp_pkey = EVP_PKEY bytes

record rsa =
  rsa_n :: bytes
  rsa_e :: bytes
  rsa_d :: "bytes option"

text \<open>
  A BIO: its kind, the bytes it holds and how many of them have been read. jose.c
  makes memory BIOs with \<^verbatim>\<open>BIO_new(BIO_s_mem())\<close> and \<^verbatim>\<open>BIO_puts\<close>, which
  leaves the text unread (jose.c 1400-1409), and file BIOs with
  \<^verbatim>\<open>BIO_new(BIO_s_file())\<close> and \<^verbatim>\<open>BIO_read_filename\<close> (jose.c 1322-1330),
  here on a file with the given contents.
\<close>

datatype bio_method = BIO_s_mem | BIO_s_file

record bio =
  bio_method :: bio_method
  bio_buf :: bytes
  bio_rpos :: nat

definition BIO_puts_new :: "string \<Rightarrow> bio" where
  "BIO_puts_new s = \<lparr>bio_method = BIO_s_mem, bio_buf = s, bio_rpos = 0\<rparr>"

definition BIO_read_filename_new :: "bytes \<Rightarrow> bio" where
  "BIO_read_filename_new contents =
     \<lparr>bio_method = BIO_s_file, bio_buf = contents, bio_rpos = 0\<rparr>"

text \<open>
  OpenSSL's \<^verbatim>\<open>BIO_reset\<close>: a file BIO is rewound to its start; a memory BIO that
  was written to (a read-write one, as \<^verbatim>\<open>BIO_new(BIO_s_mem())\<close> makes) is emptied.
\<close>

definition BIO_reset :: "bio \<Rightarrow> bio" where
  "BIO_reset b =
     (case bio_method b of
        BIO_s_mem \<Rightarrow> b\<lparr>bio_buf := [], bio_rpos := 0\<rparr>
      | BIO_s_file \<Rightarrow> b\<lparr>bio_rpos := 0\<rparr>)"

text \<open>
  A PEM reader on a BIO. The reader itself is external: from the unread bytes it
  gives the object it finds, if any, and the number of bytes it consumes. With
  nothing left to read it finds nothing, whatever the reader.
\<close>

definition bio_read :: "(bytes \<Rightarrow> 'a option \<times> nat) \<Rightarrow> bio \<Rightarrow> 'a option \<times> bio" where
  "bio_read reader b =
     (let unread = drop (bio_rpos b) (bio_buf b) in
      if unread = [] then (None, b)
      else (fst (reader unread),
            b\<lparr>bio_rpos := min (length (bio_buf b)) (bio_rpos b + snd (reader unread))\<rparr>))"

text \<open>
  The external calls. A fallible call returns the library's error on the left. The
  field \<^verbatim>\<open>OIDC_JOSE_EC_SUPPORT\<close> is the compile-time flag of jose.h; \<open>json_real_text\<close>
  is the text jansson prints for a real; a digest found by \<^verbatim>\<open>EVP_get_digestbyname\<close>
  maps the input to the hash, or to the name of the EVP call that failed; the three
  PEM readers of keys and certificates are applied to a BIO by \<open>bio_read\<close>.
\<close>

record ext =
  OIDC_JOSE_EC_SUPPORT :: bool
  cjose_version :: string
  cjose_jwe_import :: "string \<Rightarrow> cjose_err + cjose_jwe"
  cjose_jwe_decrypt :: "cjose_jwe \<Rightarrow> cjose_jwk option \<Rightarrow> cjose_err + bytes"
  cjose_jws_import :: "string \<Rightarrow> cjose_err + cjose_jws"
  cjose_jws_get_plaintext :: "cjose_jws \<Rightarrow> cjose_err + bytes"
  cjose_jws_verify :: "cjose_jws option \<Rightarrow> cjose_jwk option \<Rightarrow> cjose_err + unit"
  cjose_jws_export :: "cjose_jws option \<Rightarrow> cjose_err + string"
  cjose_jwk_create_oct_spec :: "bytes \<Rightarrow> cjose_err + cjose_jwk"
  cjose_jwk_create_RSA_spec :: "cjose_jwk_rsa_keyspec \<Rightarrow> cjose_err + cjose_jwk"
  json_loads :: "string \<Rightarrow> string + json"
  json_real_text :: "real \<Rightarrow> string"
  EVP_get_digestbyname :: "string \<Rightarrow> (bytes \<Rightarrow> string + bytes) option"
  PEM_read_bio_PrivateKey :: "bytes \<Rightarrow> evp_pkey option \<times> nat"
  PEM_read_bio_PUBKEY :: "bytes \<Rightarrow> evp_pkey option \<times> nat"
  PEM_read_bio_X509_AUX :: "bytes \<Rightarrow> x509 option \<times> nat"
  X509_get_pubkey :: "x509 \<Rightarrow> evp_pkey option"
  PEM_write_bio_X509 :: "x509 \<Rightarrow> string option"
  PEM_read_bio :: "bio \<Rightarrow> bytes option"
  i2d_X509 :: "x509 \<Rightarrow> bytes option"
  EVP_PKEY_get1_RSA :: "evp_pkey \<Rightarrow> rsa option"

subsection \<open>Errors, JWK and JWT\<close>

text \<open>
  One constructor for each message \<^verbatim>\<open>oidc_jose_error\<close> formats in the functions
  below, with the arguments of the format. \<open>E_openssl f\<close> is
  \<^verbatim>\<open>oidc_jose_error_openssl(err, f)\<close>. A function
  returns the last error it writes, \<open>None\<close> when it writes none; a caller that passes
  no error sink sees nothing of it.
\<close>

datatype oidc_jose_error =
    E_no_decryption_keys
  | E_decrypt_kid string cjose_err
  | E_no_key_with_kid string
  | E_decrypt_any nat cjose_err
  | E_jwe_import cjose_err
  | E_jws_import cjose_err
  | E_jws_get_plaintext cjose_err
  | E_json_loads string string
  | E_not_an_object
  | E_jws_verify cjose_err
  | E_verify_any nat
  | E_verify_any_hint nat "string option"
  | E_jws_export cjose_err
  | E_no_digest string
  | E_hash_and_base64urlencode
  | E_jwk_set_kid cjose_err
  | E_jwk_create_oct_spec cjose_err
  | E_jwk_create_RSA_spec cjose_err
  | E_openssl string
  | E_x5c_not_found
  | E_x5c_not_array
  | E_x5c_first_null
  | E_x5c_first_not_string
  | E_mandatory_not_string string
  | E_mandatory_not_number string
  | E_mandatory_not_found string

text \<open>
  Modelled from the spec: the structures \<^verbatim>\<open>oidc_jwk_t\<close>, \<^verbatim>\<open>oidc_jwt_hdr_t\<close>,
  \<^verbatim>\<open>oidc_jwt_payload_t\<close> and \<^verbatim>\<open>oidc_jwt_t\<close> are declared in jose.h, which is not
  under src/. The fields are the ones jose.c reads and writes; \<^verbatim>\<open>x5c_count\<close> is
  the length of \<open>jwk_x5c\<close>, and \<^verbatim>\<open>value.json\<close> and \<^verbatim>\<open>value.str\<close> of header
  and payload are the fields \<open>hdr_json\<close>, \<open>hdr_str\<close>, \<open>pl_json\<close>, \<open>pl_str\<close>.
\<close>

record oidc_jwk =
  jwk_kty :: int
  jwk_kid :: "string option"
  jwk_x5c :: "string list"
  jwk_x5t :: "string option"
  jwk_x5t_S256 :: "string option"
  jwk_cjose_jwk :: "cjose_jwk option"

record oidc_jwt_hdr =
  hdr_json :: "json option"
  hdr_str :: "string option"
  hdr_alg :: "string option"
  hdr_kid :: "string option"
  hdr_enc :: "string option"

record oidc_jwt_payload =
  pl_json :: "json option"
  pl_str :: "string option"
  pl_iss :: "string option"
  pl_sub :: "string option"
  pl_exp :: real
  pl_iat :: real

record oidc_jwt =
  header :: oidc_jwt_hdr
  payload :: oidc_jwt_payload
  cjose_jws :: "cjose_jws option"

text \<open>A keyset is an \<^verbatim>\<open>apr_hash_t\<close> from kid to JWK: the list of its entries in
  the order \<^verbatim>\<open>apr_hash_first\<close>/\<^verbatim>\<open>apr_hash_next\<close> visit them. \<^verbatim>\<open>apr_hash_get\<close>
  is \<open>map_of\<close>, \<^verbatim>\<open>apr_hash_count\<close> is \<open>length\<close>.\<close>

type_synonym keyset = "(string \<times> oidc_jwk) list"

text \<open>Modelled from the spec: \<^verbatim>\<open>OIDC_JWT_CLAIM_TIME_EMPTY\<close> and the digest names
  are macros of jose.h, which is not under src/; the sentinel for an absent timestamp
  is -1.\<close>

definition OIDC_JWT_CLAIM_TIME_EMPTY :: real where "OIDC_JWT_CLAIM_TIME_EMPTY = - 1"
definition OIDC_JOSE_ALG_SHA1 :: string where "OIDC_JOSE_ALG_SHA1 = ''sha1''"
definition OIDC_JOSE_ALG_SHA256 :: string where "OIDC_JOSE_ALG_SHA256 = ''sha256''"

text \<open>\<^verbatim>\<open>oidc_jwk_new\<close>, \<^verbatim>\<open>oidc_jwt_new\<close> (jose.c 152-163, 279-282): zeroed
  structures.\<close>

definition oidc_jwk_new :: oidc_jwk where
  "oidc_jwk_new = \<lparr>jwk_kty = 0, jwk_kid = None, jwk_x5c = [], jwk_x5t = None,
     jwk_x5t_S256 = None, jwk_cjose_jwk = None\<rparr>"

definition oidc_jwt_new :: "bool \<Rightarrow> bool \<Rightarrow> oidc_jwt" where
  "oidc_jwt_new create_header create_payload =
     \<lparr>header = \<lparr>hdr_json = (if create_header then Some (JObject []) else None),
                 hdr_str = None, hdr_alg = None, hdr_kid = None, hdr_enc = None\<rparr>,
      payload = \<lparr>pl_json = (if create_payload then Some (JObject []) else None),
                  pl_str = None, pl_iss = None, pl_sub = None, pl_exp = 0, pl_iat = 0\<rparr>,
      cjose_jws = None\<rparr>"

text \<open>
  \<^verbatim>\<open>oidc_jwk_destroy\<close> (jose.c 374-381). The argument is the pointer, \<open>None\<close> for
  \<open>NULL\<close>; the result is the structure after the call and the handles passed to
  \<^verbatim>\<open>cjose_jwk_release\<close>.
\<close>

definition oidc_jwk_destroy :: "oidc_jwk option \<Rightarrow> oidc_jwk option \<times> cjose_jwk list" where
  "oidc_jwk_destroy jwk =
     (case jwk of
        None \<Rightarrow> (None, [])
      | Some k \<Rightarrow>
          (case jwk_cjose_jwk k of
             None \<Rightarrow> (Some k, [])
           | Some h \<Rightarrow> (Some (k\<lparr>jwk_cjose_jwk := None\<rparr>), [h])))"

text \<open>Calling destroy \<open>n\<close> times on the same JWK, collecting every released handle.\<close>

fun oidc_jwk_destroy_times :: "nat \<Rightarrow> oidc_jwk option \<Rightarrow> oidc_jwk option \<times> cjose_jwk list"
  where
  "oidc_jwk_destroy_times 0 jwk = (jwk, [])"
| "oidc_jwk_destroy_times (Suc n) jwk =
     (case oidc_jwk_destroy jwk of
        (jwk', released) \<Rightarrow>
          (case oidc_jwk_destroy_times n jwk' of
             (jwk'', released') \<Rightarrow> (jwk'', released @ released')))"

text \<open>\<^verbatim>\<open>oidc_jwt_destroy\<close> (jose.c 849-866) on a non-null JWT: the structure after the
  call and the handles passed to \<^verbatim>\<open>cjose_jws_release\<close>.\<close>

definition oidc_jwt_destroy :: "oidc_jwt \<Rightarrow> oidc_jwt \<times> cjose_jws list" where
  "oidc_jwt_destroy jwt =
     (let h = (if hdr_json (header jwt) \<noteq> None
               then (header jwt)\<lparr>hdr_json := None, hdr_str := None\<rparr> else header jwt);
          p = (if pl_json (payload jwt) \<noteq> None
               then (payload jwt)\<lparr>pl_json := None, pl_str := None\<rparr> else payload jwt)
      in (case cjose_jws jwt of
            None \<Rightarrow> (jwt\<lparr>header := h, payload := p\<rparr>, [])
          | Some s \<Rightarrow> (jwt\<lparr>header := h, payload := p, cjose_jws := None\<rparr>, [s])))"

subsection \<open>Compact serialization\<close>

text \<open>\<^verbatim>\<open>OIDC_JOSE_HDR_ALG_NONE\<close> (jose.c 177): the base64url text of
  \<^verbatim>\<open>{"alg":"none"}\<close>, a constant of the source.\<close>

definition OIDC_JOSE_HDR_ALG_NONE :: string where
  "OIDC_JOSE_HDR_ALG_NONE = ''eyJhbGciOiJub25lIn0''"

text \<open>
  \<^verbatim>\<open>oidc_jwt_serialize\<close> (jose.c 182-210): the returned string (\<open>None\<close> for
  \<open>NULL\<close>) and the error written. \<^verbatim>\<open>strcmp\<close> on a null \<^verbatim>\<open>header.alg\<close> and
  \<^verbatim>\<open>strlen\<close> on the \<open>NULL\<close> that \<^verbatim>\<open>json_dumps\<close> returns are null dereferences.
  \<^verbatim>\<open>cjose_base64url_encode\<close> fails only on a null argument or without memory, so
  the branch that returns \<open>NULL\<close> after it has no counterpart here.
\<close>

definition oidc_jwt_serialize :: "ext \<Rightarrow> oidc_jwt \<Rightarrow> (string option \<times> oidc_jose_error option) run"
  where
  "oidc_jwt_serialize P jwt =
     (case hdr_alg (header jwt) of
        None \<Rightarrow> Fault NullDeref
      | Some alg \<Rightarrow>
          (if alg \<noteq> CJOSE_HDR_ALG_NONE then
             (case cjose_jws_export P (cjose_jws jwt) of
                Inl e \<Rightarrow> Returns (None, Some (E_jws_export e))
              | Inr cser \<Rightarrow> Returns (Some cser, None))
           else
             (case json_dumps (json_real_text P) True False (pl_json (payload jwt)) of
                None \<Rightarrow> Fault NullDeref
              | Some s_payload \<Rightarrow>
                  Returns (Some (OIDC_JOSE_HDR_ALG_NONE @ ''.''
                                 @ cjose_base64url_encode s_payload @ ''.''), None))))"

subsection \<open>Signature verification\<close>

text \<open>\<^verbatim>\<open>oidc_jose_version_deprecated\<close> (jose.c 951-960):
  \<^verbatim>\<open>strstr(version, "0.4.") == version\<close>, the version text begins with
  \<^verbatim>\<open>OIDC_JOSE_CJOSE_VERSION_DEPRECATED\<close>.\<close>

definition OIDC_JOSE_CJOSE_VERSION_DEPRECATED :: string where
  "OIDC_JOSE_CJOSE_VERSION_DEPRECATED = ''0.4.''"

definition oidc_jose_version_deprecated :: "ext \<Rightarrow> bool" where
  "oidc_jose_version_deprecated P =
     prefix OIDC_JOSE_CJOSE_VERSION_DEPRECATED (cjose_version P)"

text \<open>\<^verbatim>\<open>oidc_jwt_alg2kty\<close> (jose.c 241-243): \<^verbatim>\<open>strcmp\<close> on a null
  \<^verbatim>\<open>header.alg\<close> is a null dereference.\<close>

definition oidc_jwt_alg2kty :: "ext \<Rightarrow> oidc_jwt \<Rightarrow> int run" where
  "oidc_jwt_alg2kty P jwt =
     (case hdr_alg (header jwt) of
        None \<Rightarrow> Fault NullDeref
      | Some alg \<Rightarrow> Returns (oidc_alg2kty (OIDC_JOSE_EC_SUPPORT P) alg))"

text \<open>
  The state of \<^verbatim>\<open>oidc_jwt_verify\<close>: the result \<^verbatim>\<open>rc\<close>, the JWT (whose signature
  handle the function may set to \<open>NULL\<close>), the error written last, and the trace of
  the calls of \<^verbatim>\<open>cjose_jws_verify\<close>, each with the handle and the key it was given.
\<close>

record verify_state =
  vs_rc :: bool
  vs_jwt :: oidc_jwt
  vs_err :: "oidc_jose_error option"
  vs_calls :: "(cjose_jws option \<times> cjose_jwk option) list"

text \<open>One attempt (jose.c 977-983 and 995-1002, the same statements): call the
  primitive; on failure write the error and, with a deprecated cjose, set the handle
  to \<open>NULL\<close>.\<close>

definition verify_attempt :: "ext \<Rightarrow> oidc_jwk \<Rightarrow> verify_state \<Rightarrow> verify_state" where
  "verify_attempt P jwk st =
     (let jwt = vs_jwt st;
          calls = vs_calls st @ [(cjose_jws jwt, jwk_cjose_jwk jwk)]
      in (case cjose_jws_verify P (cjose_jws jwt) (jwk_cjose_jwk jwk) of
            Inr u \<Rightarrow> st\<lparr>vs_rc := True, vs_calls := calls\<rparr>
          | Inl e \<Rightarrow>
              st\<lparr>vs_rc := False,
                 vs_jwt := (if oidc_jose_version_deprecated P
                            then jwt\<lparr>cjose_jws := None\<rparr> else jwt),
                 vs_err := Some (E_jws_verify e),
                 vs_calls := calls\<rparr>))"

text \<open>The loop over the keyset (jose.c 992-1006), on the entries still to visit.\<close>

fun oidc_jwt_verify_loop :: "ext \<Rightarrow> keyset \<Rightarrow> verify_state \<Rightarrow> verify_state run" where
  "oidc_jwt_verify_loop P [] st = Returns st"
| "oidc_jwt_verify_loop P ((k, jwk) # rest) st =
     (case oidc_jwt_alg2kty P (vs_jwt st) of
        Fault f \<Rightarrow> Fault f
      | Returns kty \<Rightarrow>
          (let st' = (if jwk_kty jwk = kty then verify_attempt P jwk st else st)
           in if vs_rc st' \<or> cjose_jws (vs_jwt st') = None
              then Returns st'
              else oidc_jwt_verify_loop P rest st'))"

text \<open>
  \<^verbatim>\<open>oidc_jwt_verify\<close> (jose.c 965-1020). \<^verbatim>\<open>apr_hash_get\<close> and
  \<^verbatim>\<open>apr_hash_first\<close> on a null hash table are null dereferences: the function has
  no test of \<^verbatim>\<open>keys\<close>.
\<close>

definition oidc_jwt_verify :: "ext \<Rightarrow> oidc_jwt \<Rightarrow> keyset option \<Rightarrow> verify_state run" where
  "oidc_jwt_verify P jwt keys =
     (let st0 = \<lparr>vs_rc = False, vs_jwt = jwt, vs_err = None, vs_calls = []\<rparr>
      in (case keys of
            None \<Rightarrow> Fault NullDeref
          | Some ks \<Rightarrow>
              (case hdr_kid (header jwt) of
                 Some kid \<Rightarrow>
                   (case map_of ks kid of
                      Some jwk \<Rightarrow> Returns (verify_attempt P jwk st0)
                    | None \<Rightarrow> Returns (st0\<lparr>vs_err := Some (E_no_key_with_kid kid)\<rparr>))
               | None \<Rightarrow>
                   (case oidc_jwt_verify_loop P ks st0 of
                      Fault f \<Rightarrow> Fault f
                    | Returns st \<Rightarrow>
                        (if vs_rc st then Returns st
                         else Returns (st\<lparr>vs_err :=
                                Some (if length ks > 0 then E_verify_any (length ks)
                                      else E_verify_any_hint (length ks)
                                             (hdr_alg (header jwt)))\<rparr>))))))"

subsection \<open>Decryption\<close>

text \<open>
  The state of \<^verbatim>\<open>oidc_jwe_decrypt_impl\<close>: the plaintext (\<open>None\<close> for \<open>NULL\<close>), the
  local \<^verbatim>\<open>cjose_err\<close> (\<open>None\<close> while no call has written it), the error written last, and the trace of the calls of
  \<^verbatim>\<open>cjose_jwe_decrypt\<close>, each with the key it was given.
\<close>

record decrypt_state =
  ds_decrypted :: "bytes option"
  ds_cjose_err :: "cjose_err option"
  ds_err :: "oidc_jose_error option"
  ds_calls :: "cjose_jwk option list"

definition decrypt_attempt :: "ext \<Rightarrow> cjose_jwe \<Rightarrow> oidc_jwk \<Rightarrow> decrypt_state \<Rightarrow> decrypt_state"
  where
  "decrypt_attempt P jwe jwk st =
     (case cjose_jwe_decrypt P jwe (jwk_cjose_jwk jwk) of
        Inr content \<Rightarrow>
          st\<lparr>ds_decrypted := Some content, ds_calls := ds_calls st @ [jwk_cjose_jwk jwk]\<rparr>
      | Inl e \<Rightarrow>
          st\<lparr>ds_decrypted := None, ds_cjose_err := Some e,
             ds_calls := ds_calls st @ [jwk_cjose_jwk jwk]\<rparr>)"

text \<open>The loop over the keyset (jose.c 739-748). \<^verbatim>\<open>oidc_alg2kty(alg)\<close> is called
  for every entry; on a header without \<^verbatim>\<open>alg\<close> it is a null dereference.\<close>

fun oidc_jwe_decrypt_loop ::
  "ext \<Rightarrow> cjose_jwe \<Rightarrow> string option \<Rightarrow> keyset \<Rightarrow> decrypt_state \<Rightarrow> decrypt_state run"
  where
  "oidc_jwe_decrypt_loop P jwe alg [] st = Returns st"
| "oidc_jwe_decrypt_loop P jwe alg ((k, jwk) # rest) st =
     (case alg of
        None \<Rightarrow> Fault NullDeref
      | Some a \<Rightarrow>
          (if jwk_kty jwk = oidc_alg2kty (OIDC_JOSE_EC_SUPPORT P) a then
             (let st' = decrypt_attempt P jwe jwk st
              in if ds_decrypted st' \<noteq> None then Returns st'
                 else oidc_jwe_decrypt_loop P jwe alg rest st')
           else oidc_jwe_decrypt_loop P jwe alg rest st))"

text \<open>
  \<^verbatim>\<open>oidc_jwe_decrypt_impl\<close> (jose.c 706-758). The local \<^verbatim>\<open>cjose_err\<close> is
  declared without a value (jose.c 713) and the two header lookups do not write it:
  it is \<open>None\<close> until a call of \<^verbatim>\<open>cjose_jwe_decrypt\<close> fails. The error message
  after the loop (jose.c 750-753) formats it whether or not an attempt was made: with
  no attempt it reads a variable that nothing has written.
\<close>

definition oidc_jwe_decrypt_impl :: "ext \<Rightarrow> cjose_jwe \<Rightarrow> keyset option \<Rightarrow> decrypt_state run"
  where
  "oidc_jwe_decrypt_impl P jwe keys =
     (let st0 = \<lparr>ds_decrypted = None, ds_cjose_err = None, ds_err = None, ds_calls = []\<rparr>;
          hdr = cjose_jwe_get_protected jwe;
          kid = cjose_header_get hdr CJOSE_HDR_KID;
          alg = cjose_header_get hdr CJOSE_HDR_ALG
      in (case keys of
            None \<Rightarrow> Returns (st0\<lparr>ds_err := Some E_no_decryption_keys\<rparr>)
          | Some ks \<Rightarrow>
              (if length ks = 0
               then Returns (st0\<lparr>ds_err := Some E_no_decryption_keys\<rparr>)
               else
                 (case kid of
                    Some k \<Rightarrow>
                      (case map_of ks k of
                         Some jwk \<Rightarrow>
                           (case cjose_jwe_decrypt P jwe (jwk_cjose_jwk jwk) of
                              Inr content \<Rightarrow>
                                Returns (st0\<lparr>ds_decrypted := Some content,
                                            ds_calls := [jwk_cjose_jwk jwk]\<rparr>)
                            | Inl e \<Rightarrow>
                                Returns (st0\<lparr>ds_cjose_err := Some e,
                                            ds_err := Some (E_decrypt_kid k e),
                                            ds_calls := [jwk_cjose_jwk jwk]\<rparr>))
                       | None \<Rightarrow> Returns (st0\<lparr>ds_err := Some (E_no_key_with_kid k)\<rparr>))
                  | None \<Rightarrow>
                      (case oidc_jwe_decrypt_loop P jwe alg ks st0 of
                         Fault f \<Rightarrow> Fault f
                       | Returns st \<Rightarrow>
                           (if ds_decrypted st = None
                            then (case ds_cjose_err st of
                                    None \<Rightarrow> Fault UninitRead
                                  | Some e \<Rightarrow>
                                      Returns (st\<lparr>ds_err :=
                                        Some (E_decrypt_any (length ks) e)\<rparr>))
                            else Returns st))))))"

text \<open>
  \<^verbatim>\<open>oidc_jwe_decrypt\<close> (jose.c 763-787). \<open>s_json0\<close> is what the caller's
  \<^verbatim>\<open>*s_json\<close> holds on entry: the function returns \<^verbatim>\<open>*s_json != NULL\<close>, and two
  of its paths do not assign it. The plaintext is copied with a terminating NUL and
  is a C string from then on.
\<close>

record decrypt_result =
  dr_rc :: bool
  dr_s_json :: "string option"
  dr_err :: "oidc_jose_error option"
  dr_calls :: "cjose_jwk option list"

definition oidc_jwe_decrypt ::
  "ext \<Rightarrow> string \<Rightarrow> keyset option \<Rightarrow> string option \<Rightarrow> bool \<Rightarrow> decrypt_result run" where
  "oidc_jwe_decrypt P input_json keys s_json0 import_must_succeed =
     (case cjose_jwe_import P input_json of
        Inr jwe \<Rightarrow>
          (case oidc_jwe_decrypt_impl P jwe keys of
             Fault f \<Rightarrow> Fault f
           | Returns st \<Rightarrow>
               (let s_json = (case ds_decrypted st of
                                Some content \<Rightarrow> Some (c_str content)
                              | None \<Rightarrow> s_json0)
                in Returns \<lparr>dr_rc = (s_json \<noteq> None), dr_s_json = s_json,
                            dr_err = ds_err st, dr_calls = ds_calls st\<rparr>))
      | Inl e \<Rightarrow>
          (if \<not> import_must_succeed
           then Returns \<lparr>dr_rc = True, dr_s_json = Some input_json,
                         dr_err = None, dr_calls = []\<rparr>
           else Returns \<lparr>dr_rc = (s_json0 \<noteq> None), dr_s_json = s_json0,
                         dr_err = Some (E_jwe_import e), dr_calls = []\<rparr>))"

subsection \<open>Parsing a token\<close>

text \<open>\<^verbatim>\<open>oidc_jose_get_string\<close>, \<^verbatim>\<open>oidc_jose_get_timestamp\<close> (jose.c 604-648):
  the result flag, the caller's slot after the call, and the error written.\<close>

definition oidc_jose_get_string ::
  "json \<Rightarrow> string \<Rightarrow> bool \<Rightarrow> string option \<Rightarrow> bool \<times> string option \<times> oidc_jose_error option"
  where
  "oidc_jose_get_string j claim_name is_mandatory result0 =
     (case json_object_get j claim_name of
        Some v \<Rightarrow>
          (case json_string_value v of
             Some s \<Rightarrow> (True, Some s, None)
           | None \<Rightarrow>
               (if is_mandatory then (False, result0, Some (E_mandatory_not_string claim_name))
                else (True, result0, None)))
      | None \<Rightarrow>
          (if is_mandatory then (False, result0, Some (E_mandatory_not_found claim_name))
           else (True, result0, None)))"

definition oidc_jose_get_timestamp ::
  "json \<Rightarrow> string \<Rightarrow> bool \<Rightarrow> bool \<times> real \<times> oidc_jose_error option" where
  "oidc_jose_get_timestamp j claim_name is_mandatory =
     (case json_object_get j claim_name of
        Some v \<Rightarrow>
          (case json_number_value v of
             Some r \<Rightarrow> (True, r, None)
           | None \<Rightarrow>
               (if is_mandatory
                then (False, OIDC_JWT_CLAIM_TIME_EMPTY, Some (E_mandatory_not_number claim_name))
                else (True, OIDC_JWT_CLAIM_TIME_EMPTY, None)))
      | None \<Rightarrow>
          (if is_mandatory
           then (False, OIDC_JWT_CLAIM_TIME_EMPTY, Some (E_mandatory_not_found claim_name))
           else (True, OIDC_JWT_CLAIM_TIME_EMPTY, None)))"

definition OIDC_JOSE_JWT_ISS :: string where "OIDC_JOSE_JWT_ISS = ''iss''"
definition OIDC_JOSE_JWT_SUB :: string where "OIDC_JOSE_JWT_SUB = ''sub''"
definition OIDC_JOSE_JWT_EXP :: string where "OIDC_JOSE_JWT_EXP = ''exp''"
definition OIDC_JOSE_JWT_IAT :: string where "OIDC_JOSE_JWT_IAT = ''iat''"

text \<open>\<^verbatim>\<open>oidc_jose_parse_payload\<close> (jose.c 658-701): the result flag, the payload
  structure after the call, and the error written. The four optional claims are read
  with no error sink.\<close>

definition oidc_jose_parse_payload ::
  "ext \<Rightarrow> bytes \<Rightarrow> oidc_jwt_payload \<Rightarrow> bool \<times> oidc_jwt_payload \<times> oidc_jose_error option"
  where
  "oidc_jose_parse_payload P s_payload pl =
     (let str = c_str s_payload in
      case json_loads P str of
        Inl text \<Rightarrow>
          (False, pl\<lparr>pl_str := Some str, pl_json := None\<rparr>, Some (E_json_loads text str))
      | Inr j \<Rightarrow>
          (let pl1 = pl\<lparr>pl_str := Some str, pl_json := Some j\<rparr> in
           if \<not> json_is_object j then (False, pl1, Some E_not_an_object)
           else
             (True,
              pl1\<lparr>pl_iss := fst (snd (oidc_jose_get_string j OIDC_JOSE_JWT_ISS False (pl_iss pl1))),
                  pl_exp := fst (snd (oidc_jose_get_timestamp j OIDC_JOSE_JWT_EXP False)),
                  pl_iat := fst (snd (oidc_jose_get_timestamp j OIDC_JOSE_JWT_IAT False)),
                  pl_sub := fst (snd (oidc_jose_get_string j OIDC_JOSE_JWT_SUB False (pl_sub pl1)))\<rparr>,
              None)))"

text \<open>
  \<^verbatim>\<open>oidc_jwt_parse\<close> (jose.c 792-846). \<open>j_jwt0\<close> is what the caller's \<^verbatim>\<open>*j_jwt\<close>
  holds on entry. The result: the flag, \<^verbatim>\<open>*j_jwt\<close> after the call, the error
  written, and the signature handles passed to \<^verbatim>\<open>cjose_jws_release\<close>.
\<close>

record parse_result =
  pr_rc :: bool
  pr_j_jwt :: "oidc_jwt option"
  pr_err :: "oidc_jose_error option"
  pr_released :: "cjose_jws list"

definition oidc_jwt_parse ::
  "ext \<Rightarrow> string \<Rightarrow> oidc_jwt option \<Rightarrow> keyset option \<Rightarrow> parse_result run" where
  "oidc_jwt_parse P input_json j_jwt0 keys =
     (case oidc_jwe_decrypt P input_json keys None False of
        Fault f \<Rightarrow> Fault f
      | Returns d \<Rightarrow>
          (if \<not> dr_rc d
           then Returns \<lparr>pr_rc = False, pr_j_jwt = j_jwt0, pr_err = dr_err d,
                         pr_released = []\<rparr>
           else
             (case dr_s_json d of
                None \<Rightarrow> Fault NullDeref
              | Some s_json \<Rightarrow>
                  (let jwt = oidc_jwt_new False False in
                   case cjose_jws_import P s_json of
                     Inl e \<Rightarrow>
                       Returns \<lparr>pr_rc = False, pr_j_jwt = None,
                                pr_err = Some (E_jws_import e),
                                pr_released = snd (oidc_jwt_destroy jwt)\<rparr>
                   | Inr jws \<Rightarrow>
                       (let hdr = cjose_jws_get_protected jws;
                            jwt1 = jwt\<lparr>cjose_jws := Some jws,
                                      header :=
                                        \<lparr>hdr_json = Some (JObject hdr),
                                         hdr_str = json_dumps (json_real_text P) True False
                                                     (Some (JObject hdr)),
                                         hdr_alg = cjose_header_get hdr CJOSE_HDR_ALG,
                                         hdr_kid = cjose_header_get hdr CJOSE_HDR_KID,
                                         hdr_enc = cjose_header_get hdr CJOSE_HDR_ENC\<rparr>\<rparr>
                        in case cjose_jws_get_plaintext P jws of
                             Inl e \<Rightarrow>
                               Returns \<lparr>pr_rc = False, pr_j_jwt = Some jwt1,
                                        pr_err = Some (E_jws_get_plaintext e),
                                        pr_released = []\<rparr>
                           | Inr plaintext \<Rightarrow>
                               (let r = oidc_jose_parse_payload P plaintext (payload jwt1);
                                    jwt2 = jwt1\<lparr>payload := fst (snd r)\<rparr>
                                in if \<not> fst r
                                   then Returns \<lparr>pr_rc = False, pr_j_jwt = None,
                                                 pr_err = snd (snd r),
                                                 pr_released = snd (oidc_jwt_destroy jwt2)\<rparr>
                                   else Returns \<lparr>pr_rc = True, pr_j_jwt = Some jwt2,
                                                 pr_err = dr_err d,
                                                 pr_released = []\<rparr>))))))"

subsection \<open>Key construction and kid derivation\<close>

text \<open>\<^verbatim>\<open>oidc_jose_hash_bytes\<close> (jose.c 1025-1061) and
  \<^verbatim>\<open>oidc_jose_hash_and_base64url_encode\<close> (jose.c 426-446), which drops the error
  of the hash and answers \<open>FALSE\<close>, here \<open>None\<close>.\<close>

definition oidc_jose_hash_bytes :: "ext \<Rightarrow> string \<Rightarrow> bytes \<Rightarrow> oidc_jose_error + bytes" where
  "oidc_jose_hash_bytes P s_digest input =
     (case EVP_get_digestbyname P s_digest of
        None \<Rightarrow> Inl (E_no_digest s_digest)
      | Some md \<Rightarrow>
          (case md input of
             Inl f \<Rightarrow> Inl (E_openssl f)
           | Inr md_value \<Rightarrow> Inr md_value))"

definition oidc_jose_hash_and_base64url_encode :: "ext \<Rightarrow> string \<Rightarrow> bytes \<Rightarrow> string option"
  where
  "oidc_jose_hash_and_base64url_encode P openssl_hash_algo input =
     (case oidc_jose_hash_bytes P openssl_hash_algo input of
        Inl e \<Rightarrow> None
      | Inr hashed \<Rightarrow> Some (cjose_base64url_encode hashed))"

text \<open>\<^verbatim>\<open>oidc_jwk_set_or_generate_kid\<close> (jose.c 451-477): the error, or the cjose key
  with its kid set.\<close>

definition oidc_jwk_set_or_generate_kid ::
  "ext \<Rightarrow> cjose_jwk \<Rightarrow> string option \<Rightarrow> bytes \<Rightarrow> oidc_jose_error + cjose_jwk" where
  "oidc_jwk_set_or_generate_kid P cjose_jwk s_kid key_params =
     (case (case s_kid of
              Some k \<Rightarrow> Some k
            | None \<Rightarrow> oidc_jose_hash_and_base64url_encode P OIDC_JOSE_ALG_SHA256 key_params)
      of
        None \<Rightarrow> Inl E_hash_and_base64urlencode
      | Some new_kid \<Rightarrow>
          (case cjose_jwk_set_kid cjose_jwk new_kid of
             Inl e \<Rightarrow> Inl (E_jwk_set_kid e)
           | Inr j \<Rightarrow> Inr j))"

text \<open>\<^verbatim>\<open>oidc_jwk_create_symmetric_key\<close> (jose.c 482-508): the JWK (\<open>None\<close> for
  \<open>NULL\<close>) and the error written.\<close>

definition oidc_jwk_create_symmetric_key ::
  "ext \<Rightarrow> string option \<Rightarrow> bytes \<Rightarrow> bool \<Rightarrow> oidc_jwk option \<times> oidc_jose_error option" where
  "oidc_jwk_create_symmetric_key P skid key set_kid =
     (case cjose_jwk_create_oct_spec P key of
        Inl e \<Rightarrow> (None, Some (E_jwk_create_oct_spec e))
      | Inr cj \<Rightarrow>
          (case (if set_kid then oidc_jwk_set_or_generate_kid P cj skid key else Inr cj) of
             Inl e \<Rightarrow> (None, Some e)
           | Inr cj' \<Rightarrow>
               (Some (oidc_jwk_new\<lparr>jwk_cjose_jwk := Some cj',
                                   jwk_kid := cjose_jwk_get_kid cj',
                                   jwk_kty := cjose_jwk_get_kty cj'\<rparr>), None)))"

subsection \<open>RSA keys and certificates from PEM\<close>

text \<open>
  \<^verbatim>\<open>oidc_jose_util_get_b64encoded_certificate_data\<close> (jose.c 70-119): the returned
  length, the caller's \<^verbatim>\<open>*b64_encoded_certificate\<close> after the call (\<open>out0\<close> before
  it), and the error written. The certificate is written as PEM into a fresh memory
  BIO and its payload read back and encoded.
\<close>

definition oidc_jose_util_get_b64encoded_certificate_data ::
  "ext \<Rightarrow> x509 \<Rightarrow> string option \<Rightarrow> nat \<times> string option \<times> oidc_jose_error option" where
  "oidc_jose_util_get_b64encoded_certificate_data P x509_cert out0 =
     (case PEM_write_bio_X509 P x509_cert of
        None \<Rightarrow> (0, out0, Some (E_openssl ''PEM_write_bio_X509''))
      | Some pem \<Rightarrow>
          (case PEM_read_bio P (BIO_puts_new pem) of
             None \<Rightarrow> (0, out0, Some (E_openssl ''PEM_read_bio''))
           | Some data \<Rightarrow>
               (length (EVP_EncodeBlock data), Some (EVP_EncodeBlock data), None)))"

text \<open>
  The loop that appends the rest of the chain (jose.c 1221-1243). Its body calls
  \<^verbatim>\<open>realloc\<close> on \<^verbatim>\<open>(*oidc_jwk)->x5c\<close> (jose.c 1225-1228), which is the block
  \<^verbatim>\<open>apr_pcalloc\<close> returned for the first certificate (jose.c 1174-1175) and not
  one of \<^verbatim>\<open>malloc\<close>: the loop returns when the first read finds no further
  certificate, and has no defined result when it finds one.
\<close>

definition x5c_chain_loop :: "ext \<Rightarrow> bio \<Rightarrow> unit run" where
  "x5c_chain_loop P input =
     (case fst (bio_read (PEM_read_bio_X509_AUX P) input) of
        None \<Rightarrow> Returns ()
      | Some x509 \<Rightarrow> Fault BadRealloc)"

text \<open>The second half of \<^verbatim>\<open>oidc_jwk_rsa_bio_to_jwk\<close> (jose.c 1247-1302): from the
  key structure to the cjose key and its kid. The fingerprint is the modulus bytes
  followed by the exponent bytes, as \<^verbatim>\<open>BN_bn2bin\<close> writes them.\<close>

definition rsa_pkey_to_jwk ::
  "ext \<Rightarrow> evp_pkey \<Rightarrow> string option \<Rightarrow> oidc_jwk \<Rightarrow> oidc_jose_error option
     \<Rightarrow> bool \<times> oidc_jwk \<times> oidc_jose_error option" where
  "rsa_pkey_to_jwk P pkey kid jwk err =
     (case EVP_PKEY_get1_RSA P pkey of
        None \<Rightarrow> (False, jwk, Some (E_openssl ''EVP_PKEY_get1_RSA''))
      | Some r \<Rightarrow>
          (let key_spec = \<lparr>ks_e = rsa_e r, ks_n = rsa_n r, ks_d = rsa_d r\<rparr> in
           case cjose_jwk_create_RSA_spec P key_spec of
             Inl e \<Rightarrow> (False, jwk\<lparr>jwk_cjose_jwk := None\<rparr>, Some (E_jwk_create_RSA_spec e))
           | Inr cj \<Rightarrow>
               (let fingerprint = ks_n key_spec @ ks_e key_spec in
                case oidc_jwk_set_or_generate_kid P cj kid fingerprint of
                  Inl e \<Rightarrow> (False, jwk\<lparr>jwk_cjose_jwk := Some cj\<rparr>, Some e)
                | Inr cj' \<Rightarrow>
                    (True,
                     jwk\<lparr>jwk_cjose_jwk := Some cj',
                         jwk_kid := cjose_jwk_get_kid cj',
                         jwk_kty := cjose_jwk_get_kty cj'\<rparr>,
                     err))))"

text \<open>The certificate branch (jose.c 1160-1244), entered after \<^verbatim>\<open>BIO_reset\<close>: the
  first certificate fills \<^verbatim>\<open>x5c[0]\<close> and the thumbprints, the loop looks for the
  rest of the chain.\<close>

definition x509_to_jwk ::
  "ext \<Rightarrow> bio \<Rightarrow> string option \<Rightarrow> oidc_jwk
     \<Rightarrow> (bool \<times> oidc_jwk \<times> oidc_jose_error option) run" where
  "x509_to_jwk P input kid jwk =
     (case fst (bio_read (PEM_read_bio_X509_AUX P) input) of
        None \<Rightarrow> Returns (False, jwk, Some (E_openssl ''PEM_read_bio_X509_AUX''))
      | Some x509 \<Rightarrow>
          (case X509_get_pubkey P x509 of
             None \<Rightarrow> Returns (False, jwk, Some (E_openssl ''X509_get_pubkey''))
           | Some pkey \<Rightarrow>
               (let r = oidc_jose_util_get_b64encoded_certificate_data P x509 None in
                case fst (snd r) of
                  None \<Rightarrow>
                    Returns (False, jwk,
                             Some (E_openssl ''oidc_jose_util_get_b64encoded_certificate''))
                | Some c \<Rightarrow>
                    (let jwk1 = jwk\<lparr>jwk_x5c := [take (fst r + 1) c]\<rparr> in
                     case i2d_X509 P x509 of
                       None \<Rightarrow> Returns (False, jwk1, Some (E_openssl ''i2d_X509''))
                     | Some x509_bytes \<Rightarrow>
                         (let t1 = oidc_jose_hash_and_base64url_encode P OIDC_JOSE_ALG_SHA1
                                     x509_bytes;
                              t256 = oidc_jose_hash_and_base64url_encode P
                                       OIDC_JOSE_ALG_SHA256 x509_bytes;
                              jwk2 = jwk1\<lparr>jwk_x5t := t1, jwk_x5t_S256 := t256\<rparr>;
                              err = (if t1 = None \<or> t256 = None
                                     then Some E_hash_and_base64urlencode else None)
                          in case x5c_chain_loop P
                                    (snd (bio_read (PEM_read_bio_X509_AUX P) input)) of
                               Fault f \<Rightarrow> Fault f
                             | Returns u \<Rightarrow>
                                 Returns (rsa_pkey_to_jwk P pkey kid jwk2 err))))))"

text \<open>\<^verbatim>\<open>oidc_jwk_rsa_bio_to_jwk\<close> (jose.c 1136-1312): the result flag,
  \<^verbatim>\<open>*oidc_jwk\<close> after the call, and the error written.\<close>

definition oidc_jwk_rsa_bio_to_jwk ::
  "ext \<Rightarrow> bio \<Rightarrow> string option \<Rightarrow> bool
     \<Rightarrow> (bool \<times> oidc_jwk \<times> oidc_jose_error option) run" where
  "oidc_jwk_rsa_bio_to_jwk P input kid is_private_key =
     (if is_private_key then
        (case fst (bio_read (PEM_read_bio_PrivateKey P) input) of
           None \<Rightarrow>
             Returns (False, oidc_jwk_new, Some (E_openssl ''PEM_read_bio_PrivateKey''))
         | Some pkey \<Rightarrow> Returns (rsa_pkey_to_jwk P pkey kid oidc_jwk_new None))
      else
        (case fst (bio_read (PEM_read_bio_PUBKEY P) input) of
           Some pkey \<Rightarrow> Returns (rsa_pkey_to_jwk P pkey kid oidc_jwk_new None)
         | None \<Rightarrow>
             x509_to_jwk P (BIO_reset (snd (bio_read (PEM_read_bio_PUBKEY P) input))) kid
               oidc_jwk_new))"

subsection \<open>The x5c-only JWK\<close>

definition OIDC_JOSE_HDR_X5C :: string where "OIDC_JOSE_HDR_X5C = ''x5c''"

definition OIDC_JOSE_CERT_BEGIN :: string where
  "OIDC_JOSE_CERT_BEGIN = ''-----BEGIN CERTIFICATE-----''"

definition OIDC_JOSE_CERT_END :: string where
  "OIDC_JOSE_CERT_END = ''-----END CERTIFICATE-----''"

text \<open>
  The PEM formatting loop (jose.c 1387-1395), with \<^verbatim>\<open>len = 75\<close>:
  \<^verbatim>\<open>while (i < strlen(s_x5c)) { s = s + chunk + "\n"; i += len; }\<close>. The chunk is
  \<^verbatim>\<open>apr_pstrmemdup(pool, s_x5c + i, len)\<close> printed with \<^verbatim>\<open>%s\<close>. The copy
  reads 75 bytes from position \<open>i\<close> whatever is left of the string, which, with its
  terminating NUL, holds \<open>length s_x5c - i + 1\<close> bytes from there: with fewer than 74
  characters left the copy reads past the end of the string. Otherwise the chunk is
  the next 75 characters, or the 74 that are left.
\<close>

function x5c_pem_loop :: "string \<Rightarrow> nat \<Rightarrow> string \<Rightarrow> string run" where
  "x5c_pem_loop s_x5c i s =
     (if i < length s_x5c
      then (if length s_x5c - i < 74 then Fault OverRead
            else x5c_pem_loop s_x5c (i + 75) (s @ take 75 (drop i s_x5c) @ [CHR 0x0A]))
      else Returns s)"
  by pat_completeness auto
termination
  by (relation "measure (\<lambda>(s_x5c, i, s). length s_x5c - i)") auto

declare x5c_pem_loop.simps [simp del]

definition x5c_pem :: "string \<Rightarrow> string run" where
  "x5c_pem s_x5c =
     (case x5c_pem_loop s_x5c 0 (OIDC_JOSE_CERT_BEGIN @ [CHR 0x0A]) of
        Fault f \<Rightarrow> Fault f
      | Returns s \<Rightarrow> Returns (s @ OIDC_JOSE_CERT_END @ [CHR 0x0A]))"

text \<open>\<^verbatim>\<open>oidc_jwk_parse_rsa_x5c\<close> (jose.c 1352-1424): the result flag, the cjose key
  stored through \<^verbatim>\<open>jwk\<close> (\<open>None\<close> for \<open>NULL\<close>, and while nothing is stored: the
  slot is \<open>NULL\<close> at the call site), and the error written. \<^verbatim>\<open>BIO_puts\<close> of the
  text, which is never empty, succeeds.\<close>

definition oidc_jwk_parse_rsa_x5c ::
  "ext \<Rightarrow> json \<Rightarrow> (bool \<times> cjose_jwk option \<times> oidc_jose_error option) run" where
  "oidc_jwk_parse_rsa_x5c P j =
     (case json_object_get j OIDC_JOSE_HDR_X5C of
        None \<Rightarrow> Returns (False, None, Some E_x5c_not_found)
      | Some v \<Rightarrow>
          (if \<not> json_is_array v then Returns (False, None, Some E_x5c_not_array)
           else
             (case json_array_get v 0 of
                None \<Rightarrow> Returns (False, None, Some E_x5c_first_null)
              | Some v0 \<Rightarrow>
                  (case json_string_value v0 of
                     None \<Rightarrow> Returns (False, None, Some E_x5c_first_not_string)
                   | Some s_x5c \<Rightarrow>
                       (case x5c_pem s_x5c of
                          Fault f \<Rightarrow> Fault f
                        | Returns s \<Rightarrow>
                            (let input = BIO_puts_new s;
                                 kid = (case json_object_get j CJOSE_HDR_KID of
                                          Some vk \<Rightarrow> json_string_value vk
                                        | None \<Rightarrow> None)
                             in case oidc_jwk_rsa_bio_to_jwk P input kid False of
                                  Fault f \<Rightarrow> Fault f
                                | Returns r \<Rightarrow>
                                    Returns (fst r, jwk_cjose_jwk (fst (snd r)),
                                             snd (snd r))))))))"

text \<open>The PEM text as the specification words it: the payload cut into lines of 75
  characters (the last one holds what is left), between the two delimiters, every
  line ended by a newline.\<close>

fun wrap_lines :: "nat \<Rightarrow> string \<Rightarrow> string list" where
  "wrap_lines 0 s = (if s = [] then [] else [s])"
| "wrap_lines (Suc n) [] = []"
| "wrap_lines (Suc n) (c # cs) = take (Suc n) (c # cs) # wrap_lines (Suc n) (drop (Suc n) (c # cs))"

definition pem_certificate :: "string \<Rightarrow> string" where
  "pem_certificate b64 =
     concat (map (\<lambda>l. l @ [CHR 0x0A])
       ([''-----BEGIN CERTIFICATE-----''] @ wrap_lines 75 b64 @ [''-----END CERTIFICATE-----'']))"

subsection \<open>The key trial of decryption, as the specification words it\<close>

text \<open>
  The candidates are the keys of the keyset, in its iteration order, whose key type is
  the one of the algorithm; they are tried one after the other up to and including
  the first that decrypts.
\<close>

definition decrypt_candidates :: "ext \<Rightarrow> string \<Rightarrow> keyset \<Rightarrow> oidc_jwk list" where
  "decrypt_candidates P alg ks =
     filter (\<lambda>jwk. jwk_kty jwk = oidc_alg2kty (OIDC_JOSE_EC_SUPPORT P) alg) (map snd ks)"

definition decrypt_fails :: "ext \<Rightarrow> cjose_jwe \<Rightarrow> oidc_jwk \<Rightarrow> bool" where
  "decrypt_fails P jwe jwk = isl (cjose_jwe_decrypt P jwe (jwk_cjose_jwk jwk))"

definition decrypt_tried :: "ext \<Rightarrow> cjose_jwe \<Rightarrow> oidc_jwk list \<Rightarrow> oidc_jwk list" where
  "decrypt_tried P jwe cs =
     takeWhile (decrypt_fails P jwe) cs @ take 1 (dropWhile (decrypt_fails P jwe) cs)"

definition attempt_plain :: "ext \<Rightarrow> cjose_jwe \<Rightarrow> oidc_jwk \<Rightarrow> bytes option" where
  "attempt_plain P jwe jwk =
     (case cjose_jwe_decrypt P jwe (jwk_cjose_jwk jwk) of Inl e \<Rightarrow> None | Inr c \<Rightarrow> Some c)"

definition attempt_error :: "ext \<Rightarrow> cjose_jwe \<Rightarrow> oidc_jwk \<Rightarrow> cjose_err option" where
  "attempt_error P jwe jwk =
     (case cjose_jwe_decrypt P jwe (jwk_cjose_jwk jwk) of Inl e \<Rightarrow> Some e | Inr c \<Rightarrow> None)"

text \<open>The errors that tell the caller that no keys were provided: the message of
  decryption, and the message of verification for a keyset of zero keys.\<close>

definition no_keys_configured :: "oidc_jose_error \<Rightarrow> bool" where
  "no_keys_configured e =
     (case e of
        E_no_decryption_keys \<Rightarrow> True
      | E_verify_any_hint n alg \<Rightarrow> n = 0
      | _ \<Rightarrow> False)"

subsection \<open>A sample environment\<close>

text \<open>
  A small concrete environment on which the functions above can be evaluated: a
  deprecated cjose (0.4.1) that imports the text \<open>jwe\<close> as a JWE without kid for
  RSA1_5 and the texts \<open>jws\<close> and \<open>jws-noplain\<close> as signed tokens, decrypts and
  verifies with one key only (\<open>good_key\<close>), and cannot extract the plaintext of
  \<open>jws-noplain\<close>; a digest that reverses its input; PEM readers that find no key and
  take all that is unread in the BIO as one certificate.
\<close>

definition good_key :: cjose_jwk where
  "good_key = \<lparr>cj_kty = 1, cj_kid = Some ''good'', cj_keydata = KeyOther ''good''\<rparr>"

definition bad_key :: cjose_jwk where
  "bad_key = \<lparr>cj_kty = 1, cj_kid = Some ''bad'', cj_keydata = KeyOther ''bad''\<rparr>"

definition oct_key :: cjose_jwk where
  "oct_key = \<lparr>cj_kty = 3, cj_kid = Some ''oct'', cj_keydata = KeyOct ''secret''\<rparr>"

definition jwk_of :: "cjose_jwk \<Rightarrow> oidc_jwk" where
  "jwk_of k = oidc_jwk_new\<lparr>jwk_cjose_jwk := Some k, jwk_kid := cjose_jwk_get_kid k,
                           jwk_kty := cjose_jwk_get_kty k\<rparr>"

definition json_a1 :: string where
  "json_a1 = [CHR ''{'', CHR 0x22, CHR ''a'', CHR 0x22, CHR '':'', CHR ''1'', CHR ''}'']"

definition ext0 :: ext where
  "ext0 =
     \<lparr>OIDC_JOSE_EC_SUPPORT = True,
      cjose_version = ''0.4.1'',
      cjose_jwe_import =
        (\<lambda>s. if s = ''jwe''
              then Inr \<lparr>jwe_hdr = [(''alg'', JString ''RSA1_5''),
                                   (''enc'', JString ''A128CBC-HS256'')],
                        jwe_cser = s\<rparr>
              else Inl CJOSE_ERR_INVALID_ARG),
      cjose_jwe_decrypt =
        (\<lambda>jwe k. if k = Some good_key then Inr ''jws'' else Inl CJOSE_ERR_CRYPTO),
      cjose_jws_import =
        (\<lambda>s. if s = ''jws'' \<or> s = ''jws-noplain''
              then Inr \<lparr>jws_hdr = [(''alg'', JString ''RS256'')], jws_cser = s\<rparr>
              else Inl CJOSE_ERR_INVALID_ARG),
      cjose_jws_get_plaintext =
        (\<lambda>jws. if jws_cser jws = ''jws-noplain'' then Inl CJOSE_ERR_INVALID_ARG
                else Inr json_a1),
      cjose_jws_verify =
        (\<lambda>jws k. if jws \<noteq> None \<and> k = Some good_key then Inr () else Inl CJOSE_ERR_CRYPTO),
      cjose_jws_export = (\<lambda>jws. Inl CJOSE_ERR_INVALID_STATE),
      cjose_jwk_create_oct_spec =
        (\<lambda>key. if key = [] then Inl CJOSE_ERR_INVALID_ARG
                else Inr \<lparr>cj_kty = 3, cj_kid = None, cj_keydata = KeyOct key\<rparr>),
      cjose_jwk_create_RSA_spec =
        (\<lambda>spec. Inr \<lparr>cj_kty = 1, cj_kid = None, cj_keydata = KeyRSA spec\<rparr>),
      json_loads =
        (\<lambda>s. if s = json_a1 then Inr (JObject [(''a'', JInteger 1)])
              else Inl ''invalid token''),
      json_real_text = (\<lambda>r. ''0.0''),
      EVP_get_digestbyname =
        (\<lambda>name. if name = ''sha1'' \<or> name = ''sha256'' then Some (\<lambda>input. Inr (rev input))
                 else None),
      PEM_read_bio_PrivateKey = (\<lambda>unread. (None, length unread)),
      PEM_read_bio_PUBKEY = (\<lambda>unread. (None, length unread)),
      PEM_read_bio_X509_AUX = (\<lambda>unread. (Some (X509 unread), length unread)),
      X509_get_pubkey = (\<lambda>x. Some (EVP_PKEY ''pk'')),
      PEM_write_bio_X509 = (\<lambda>x. case x of X509 pem \<Rightarrow> Some pem),
      PEM_read_bio = (\<lambda>b. Some ''DER''),
      i2d_X509 = (\<lambda>x. Some ''DER''),
      EVP_PKEY_get1_RSA = (\<lambda>k. Some \<lparr>rsa_n = ''N'', rsa_e = ''E'', rsa_d = None\<rparr>)\<rparr>"

text \<open>An unsigned token with the payload \<^verbatim>\<open>{"a":1}\<close>.\<close>

definition jwt_a1 :: oidc_jwt where
  "jwt_a1 = (oidc_jwt_new True True)
     \<lparr>header := (header (oidc_jwt_new True True))\<lparr>hdr_alg := Some ''none''\<rparr>,
      payload := (payload (oidc_jwt_new True True))
                   \<lparr>pl_json := Some (JObject [(''a'', JInteger 1)])\<rparr>\<rparr>"

text \<open>The JWE and the signed token of the sample environment, a JWT parsed from the
  latter (without and with a kid), and three keysets.\<close>

definition jwe0 :: cjose_jwe where
  "jwe0 = \<lparr>jwe_hdr = [(''alg'', JString ''RSA1_5''), (''enc'', JString ''A128CBC-HS256'')],
           jwe_cser = ''jwe''\<rparr>"

definition jws0 :: cjose_jws where
  "jws0 = \<lparr>jws_hdr = [(''alg'', JString ''RS256'')], jws_cser = ''jws''\<rparr>"

definition jwt_rs256 :: oidc_jwt where
  "jwt_rs256 = (oidc_jwt_new False False)
     \<lparr>header := (header (oidc_jwt_new False False))\<lparr>hdr_alg := Some ''RS256''\<rparr>,
      cjose_jws := Some jws0\<rparr>"

definition jwt_rs256_kid :: oidc_jwt where
  "jwt_rs256_kid = jwt_rs256\<lparr>header := (header jwt_rs256)\<lparr>hdr_kid := Some ''k1''\<rparr>\<rparr>"

definition ks_bad_good :: keyset where
  "ks_bad_good = [(''bad'', jwk_of bad_key), (''good'', jwk_of good_key)]"

definition ks_oct_bad :: keyset where
  "ks_oct_bad = [(''oct'', jwk_of oct_key), (''bad'', jwk_of bad_key)]"

definition ks_oct_bad_good :: keyset where
  "ks_oct_bad_good =
     [(''oct'', jwk_of oct_key), (''bad'', jwk_of bad_key), (''good'', jwk_of good_key)]"

text \<open>The JWT that \<^verbatim>\<open>oidc_jwt_parse\<close> has built from the text \<open>jws-noplain\<close> when
  the extraction of the plaintext fails: header and signature handle set, no payload.\<close>

definition jws_noplain :: cjose_jws where
  "jws_noplain = \<lparr>jws_hdr = [(''alg'', JString ''RS256'')], jws_cser = ''jws-noplain''\<rparr>"

definition jwt_noplain :: oidc_jwt where
  "jwt_noplain = (oidc_jwt_new False False)
     \<lparr>header := \<lparr>hdr_json = Some (JObject (jws_hdr jws_noplain)),
                  hdr_str = json_dumps (json_real_text ext0) True False
                              (Some (JObject (jws_hdr jws_noplain))),
                  hdr_alg = Some ''RS256'', hdr_kid = None, hdr_enc = None\<rparr>,
      cjose_jws := Some jws_noplain\<rparr>"

text \<open>The contents of a PEM file with one certificate, the JWK that the sample
  environment decodes from it, and the symmetric JWK for the secret \<open>secret\<close> with a
  generated kid.\<close>

definition cert_pem_file :: bytes where
  "cert_pem_file = ''-----BEGIN CERTIFICATE-----'' @ [CHR 0x0A] @ ''MIIB'' @ [CHR 0x0A]
                   @ ''-----END CERTIFICATE-----'' @ [CHR 0x0A]"

definition jwk_cert :: oidc_jwk where
  "jwk_cert =
     \<lparr>jwk_kty = 1, jwk_kid = Some ''RU4'', jwk_x5c = [''REVS''],
      jwk_x5t = Some ''UkVE'', jwk_x5t_S256 = Some ''UkVE'',
      jwk_cjose_jwk = Some \<lparr>cj_kty = 1, cj_kid = Some ''RU4'',
          cj_keydata = KeyRSA \<lparr>ks_e = ''E'', ks_n = ''N'', ks_d = None\<rparr>\<rparr>\<rparr>"

definition jwk_secret :: oidc_jwk where
  "jwk_secret =
     \<lparr>jwk_kty = 3, jwk_kid = Some ''dGVyY2Vz'', jwk_x5c = [], jwk_x5t = None,
      jwk_x5t_S256 = None,
      jwk_cjose_jwk = Some \<lparr>cj_kty = 3, cj_kid = Some ''dGVyY2Vz'',
          cj_keydata = KeyOct ''secret''\<rparr>\<rparr>"

text \<open>Two x5c-only JWKs: the first certificate entry of one has 4 characters, that of
  the other has 74, the length of a line of the PEM text less one.\<close>

definition jwk_x5c_only :: json where
  "jwk_x5c_only = JObject [(''kty'', JString ''RSA''), (''x5c'', JArray [JString ''MIIB''])]"

definition x5c_74 :: string where
  "x5c_74 = ''MIIBIjANBgkqhkiG9w0BAQEFAAOCAQ8AMIIBCgKCAQEAu1SU1LfVLPHCozMxH2Mo4lgOEePzNm''"

definition jwk_x5c_74 :: json where
  "jwk_x5c_74 = JObject [(''kty'', JString ''RSA''), (''x5c'', JArray [JString x5c_74])]"

section \<open>Unfolding the constants and the sample environment\<close>

lemmas sample_defs =
  ext0_def jwk_of_def oidc_jwk_new_def oidc_jwt_new_def good_key_def bad_key_def oct_key_def
  cjose_jwk_get_kid_def cjose_jwk_get_kty_def cjose_jwe_get_protected_def
  cjose_header_get_def CJOSE_HDR_KID_def CJOSE_HDR_ALG_def

lemmas cjose_alg_defs =
  CJOSE_HDR_ALG_NONE_def CJOSE_HDR_ALG_DIR_def CJOSE_HDR_ALG_RSA_OAEP_def
  CJOSE_HDR_ALG_RSA1_5_def CJOSE_HDR_ALG_A128KW_def CJOSE_HDR_ALG_A192KW_def
  CJOSE_HDR_ALG_A256KW_def

lemmas cjose_kty_defs = CJOSE_JWK_KTY_RSA_def CJOSE_JWK_KTY_EC_def CJOSE_JWK_KTY_OCT_def

lemmas alg2kty_defs = oidc_alg2kty_def strncmp_eq_def cjose_alg_defs cjose_kty_defs

section \<open>Evaluating key construction in the sample environment\<close>

lemmas kid_defs =
  oidc_jwk_set_or_generate_kid_def oidc_jose_hash_and_base64url_encode_def
  oidc_jose_hash_bytes_def cjose_jwk_set_kid_def OIDC_JOSE_ALG_SHA256_def
  OIDC_JOSE_ALG_SHA1_def cjose_base64url_encode_def b64_url_def

lemma rsa_bio_to_jwk_cert_file:
  "oidc_jwk_rsa_bio_to_jwk ext0 (BIO_read_filename_new cert_pem_file) None False
     = Returns (True, jwk_cert, None)"
  by (simp add: cert_pem_file_def oidc_jwk_rsa_bio_to_jwk_def x509_to_jwk_def
      x5c_chain_loop_def rsa_pkey_to_jwk_def bio_read_def BIO_reset_def
      oidc_jose_util_get_b64encoded_certificate_data_def BIO_puts_new_def
      BIO_read_filename_new_def
      EVP_EncodeBlock_def b64_std_def kid_defs Let_def jwk_cert_def sample_defs)
section \<open>The key type lookup\<close>

lemma strncmp_eq_prefix2: "strncmp_eq alg [a, b] 2 \<longleftrightarrow> prefix [a, b] alg"
proof (cases alg)
  case Nil
  then show ?thesis by (simp add: strncmp_eq_def)
next
  case (Cons x xs)
  then show ?thesis
    by (cases xs) (auto simp: strncmp_eq_def numeral_2_eq_2)
qed

text \<open>
  C6, as the code has it. Every identifier of the recognized set gets its key type:
  octet for dir, HS256/384/512 and the AES key wraps; RSA for RS256/384/512,
  PS256/384/512, RSA1_5 and RSA-OAEP; elliptic curve for ES256/384/512 when EC support
  is compiled in (without it they are not recognized, and get the unknown value -1).
  The RS, PS, HS and ES families are matched by their first two characters only, so
  the unknown value is returned exactly for the identifiers that are not dir, not an
  AES key wrap, and do not begin with RS, PS, HS (or ES with EC support). Outside the
  recognized set an identifier that begins with RS or PS gets the RSA key type, one
  that begins with HS the octet key type, one that begins with ES the elliptic curve
  key type when EC support is compiled in, and every other identifier gets -1.
\<close>

theorem oidc_alg2kty_lookup:
  "(alg \<in> {''dir'', ''HS256'', ''HS384'', ''HS512'', ''A128KW'', ''A192KW'', ''A256KW''}
      \<longrightarrow> oidc_alg2kty ec alg = CJOSE_JWK_KTY_OCT)
   \<and> (alg \<in> {''RS256'', ''RS384'', ''RS512'', ''PS256'', ''PS384'', ''PS512'',
               ''RSA1_5'', ''RSA-OAEP''}
      \<longrightarrow> oidc_alg2kty ec alg = CJOSE_JWK_KTY_RSA)
   \<and> (alg \<in> {''ES256'', ''ES384'', ''ES512''}
      \<longrightarrow> oidc_alg2kty ec alg = (if ec then CJOSE_JWK_KTY_EC else - 1))
   \<and> (alg \<in> recognized_algorithms ec \<longleftrightarrow>
        alg \<in> {''dir'', ''HS256'', ''HS384'', ''HS512'', ''A128KW'', ''A192KW'', ''A256KW''}
        \<or> alg \<in> {''RS256'', ''RS384'', ''RS512'', ''PS256'', ''PS384'', ''PS512'',
                   ''RSA1_5'', ''RSA-OAEP''}
        \<or> (ec \<and> alg \<in> {''ES256'', ''ES384'', ''ES512''}))
   \<and> (alg \<in> recognized_algorithms ec \<longrightarrow> oidc_alg2kty ec alg \<noteq> - 1)
   \<and> (oidc_alg2kty ec alg = - 1 \<longleftrightarrow>
        alg \<noteq> ''dir'' \<and> alg \<notin> {''A128KW'', ''A192KW'', ''A256KW''}
        \<and> \<not> prefix ''RS'' alg \<and> \<not> prefix ''PS'' alg \<and> \<not> prefix ''HS'' alg
        \<and> \<not> (ec \<and> prefix ''ES'' alg))
   \<and> (alg \<notin> recognized_algorithms ec
      \<longrightarrow> oidc_alg2kty ec alg =
            (if prefix ''RS'' alg \<or> prefix ''PS'' alg then CJOSE_JWK_KTY_RSA
             else if prefix ''HS'' alg then CJOSE_JWK_KTY_OCT
             else if ec \<and> prefix ''ES'' alg then CJOSE_JWK_KTY_EC
             else - 1))"
proof -
  have oct: "alg \<in> {''dir'', ''HS256'', ''HS384'', ''HS512'', ''A128KW'', ''A192KW'', ''A256KW''}
      \<longrightarrow> oidc_alg2kty ec alg = CJOSE_JWK_KTY_OCT"
    by (auto simp: oidc_alg2kty_def strncmp_eq_def cjose_alg_defs)
  have rsa: "alg \<in> {''RS256'', ''RS384'', ''RS512'', ''PS256'', ''PS384'', ''PS512'',
               ''RSA1_5'', ''RSA-OAEP''}
      \<longrightarrow> oidc_alg2kty ec alg = CJOSE_JWK_KTY_RSA"
    by (auto simp: oidc_alg2kty_def strncmp_eq_def cjose_alg_defs)
  have ecc: "alg \<in> {''ES256'', ''ES384'', ''ES512''}
      \<longrightarrow> oidc_alg2kty ec alg = (if ec then CJOSE_JWK_KTY_EC else - 1)"
    by (auto simp: oidc_alg2kty_def strncmp_eq_def cjose_alg_defs)
  have members: "alg \<in> recognized_algorithms ec \<longleftrightarrow>
        alg \<in> {''dir'', ''HS256'', ''HS384'', ''HS512'', ''A128KW'', ''A192KW'', ''A256KW''}
        \<or> alg \<in> {''RS256'', ''RS384'', ''RS512'', ''PS256'', ''PS384'', ''PS512'',
                   ''RSA1_5'', ''RSA-OAEP''}
        \<or> (ec \<and> alg \<in> {''ES256'', ''ES384'', ''ES512''})"
    unfolding recognized_algorithms_def
    by (cases ec) (simp_all only: Un_iff if_True if_False empty_iff simp_thms disj_assoc)
  have known: "alg \<in> recognized_algorithms ec \<longrightarrow> oidc_alg2kty ec alg \<noteq> - 1"
  proof
    assume "alg \<in> recognized_algorithms ec"
    with members consider
      (o) "alg \<in> {''dir'', ''HS256'', ''HS384'', ''HS512'', ''A128KW'', ''A192KW'', ''A256KW''}"
      | (r) "alg \<in> {''RS256'', ''RS384'', ''RS512'', ''PS256'', ''PS384'', ''PS512'',
                      ''RSA1_5'', ''RSA-OAEP''}"
      | (e) "ec" "alg \<in> {''ES256'', ''ES384'', ''ES512''}"
      by (simp only:) fast
    then show "oidc_alg2kty ec alg \<noteq> - 1"
    proof cases
      case o
      with oct have "oidc_alg2kty ec alg = CJOSE_JWK_KTY_OCT" by (rule mp)
      then show ?thesis by (simp add: cjose_kty_defs)
    next
      case r
      with rsa have "oidc_alg2kty ec alg = CJOSE_JWK_KTY_RSA" by (rule mp)
      then show ?thesis by (simp add: cjose_kty_defs)
    next
      case e
      from ecc e(2) have "oidc_alg2kty ec alg = (if ec then CJOSE_JWK_KTY_EC else - 1)"
        by (rule mp)
      with e(1) show ?thesis by (simp add: cjose_kty_defs)
    qed
  qed
  have unknown: "oidc_alg2kty ec alg = - 1 \<longleftrightarrow>
        alg \<noteq> ''dir'' \<and> alg \<notin> {''A128KW'', ''A192KW'', ''A256KW''}
        \<and> \<not> prefix ''RS'' alg \<and> \<not> prefix ''PS'' alg \<and> \<not> prefix ''HS'' alg
        \<and> \<not> (ec \<and> prefix ''ES'' alg)"
    unfolding oidc_alg2kty_def strncmp_eq_prefix2
    by (auto simp: cjose_alg_defs cjose_kty_defs)
  have outside: "alg \<notin> recognized_algorithms ec
      \<longrightarrow> oidc_alg2kty ec alg =
            (if prefix ''RS'' alg \<or> prefix ''PS'' alg then CJOSE_JWK_KTY_RSA
             else if prefix ''HS'' alg then CJOSE_JWK_KTY_OCT
             else if ec \<and> prefix ''ES'' alg then CJOSE_JWK_KTY_EC
             else - 1)"
    unfolding oidc_alg2kty_def strncmp_eq_prefix2 recognized_algorithms_def
    by (auto simp: cjose_alg_defs)
  show ?thesis
    by (intro conjI) (rule oct rsa ecc members known unknown outside)+
qed

theorem oidc_alg2kty_lookup_witness:
  "oidc_alg2kty True ''RS256'' = CJOSE_JWK_KTY_RSA
   \<and> oidc_alg2kty True ''HS512'' = CJOSE_JWK_KTY_OCT
   \<and> oidc_alg2kty True ''ES384'' = CJOSE_JWK_KTY_EC
   \<and> oidc_alg2kty False ''ES384'' = - 1
   \<and> ''RSA-OAEP-256'' \<notin> recognized_algorithms True
   \<and> oidc_alg2kty True ''RSA-OAEP-256'' = CJOSE_JWK_KTY_RSA
   \<and> ''ES256K'' \<notin> recognized_algorithms True
   \<and> oidc_alg2kty True ''ES256K'' = CJOSE_JWK_KTY_EC
   \<and> ''EdDSA'' \<notin> recognized_algorithms True
   \<and> oidc_alg2kty True ''EdDSA'' = - 1"
proof -
  have out: "''RSA-OAEP-256'' \<notin> recognized_algorithms True"
    "''ES256K'' \<notin> recognized_algorithms True" "''EdDSA'' \<notin> recognized_algorithms True"
    by (simp_all add: recognized_algorithms_def)
  from oidc_alg2kty_lookup [of "''RS256''" True]
  have a: "oidc_alg2kty True ''RS256'' = CJOSE_JWK_KTY_RSA" by simp
  from oidc_alg2kty_lookup [of "''HS512''" True]
  have b: "oidc_alg2kty True ''HS512'' = CJOSE_JWK_KTY_OCT" by simp
  from oidc_alg2kty_lookup [of "''ES384''" True]
  have c: "oidc_alg2kty True ''ES384'' = CJOSE_JWK_KTY_EC" by simp
  from oidc_alg2kty_lookup [of "''ES384''" False]
  have d: "oidc_alg2kty False ''ES384'' = - 1" by simp
  from oidc_alg2kty_lookup [of "''RSA-OAEP-256''" True] out(1)
  have e: "oidc_alg2kty True ''RSA-OAEP-256'' = CJOSE_JWK_KTY_RSA" by simp
  from oidc_alg2kty_lookup [of "''ES256K''" True] out(2)
  have f: "oidc_alg2kty True ''ES256K'' = CJOSE_JWK_KTY_EC" by simp
  from oidc_alg2kty_lookup [of "''EdDSA''" True] out(3)
  have g: "oidc_alg2kty True ''EdDSA'' = - 1" by simp
  from a b c d e f g out show ?thesis by blast
qed

text \<open>
  The claim as stated fails: \<open>HS1\<close> is outside the recognized set, and the lookup
  answers octet, not -1 (\<^verbatim>\<open>strncmp(alg, "HS", 2) == 0\<close>).
\<close>

theorem oidc_alg2kty_unknown_counterexample:
  "''HS1'' \<notin> recognized_algorithms True
   \<and> oidc_alg2kty True ''HS1'' = CJOSE_JWK_KTY_OCT
   \<and> oidc_alg2kty True ''HS1'' \<noteq> - 1"
  by (simp add: recognized_algorithms_def oidc_alg2kty_def strncmp_eq_def
      cjose_alg_defs cjose_kty_defs)

section \<open>Releasing a JWK\<close>

lemma oidc_jwk_destroy_twice:
  "oidc_jwk_destroy (fst (oidc_jwk_destroy jwk)) = (fst (oidc_jwk_destroy jwk), [])"
  by (simp add: oidc_jwk_destroy_def split: option.splits)

lemma oidc_jwk_destroy_times_fixed:
  "oidc_jwk_destroy j = (j, []) \<Longrightarrow> oidc_jwk_destroy_times n j = (j, [])"
  by (induction n) simp_all

lemma oidc_jwk_destroy_times_released:
  "snd (oidc_jwk_destroy_times (Suc n) jwk) = snd (oidc_jwk_destroy jwk)
   \<and> fst (oidc_jwk_destroy_times (Suc n) jwk) = fst (oidc_jwk_destroy jwk)"
proof -
  obtain j r where d: "oidc_jwk_destroy jwk = (j, r)"
    by (cases "oidc_jwk_destroy jwk")
  have "oidc_jwk_destroy j = (j, [])"
    using oidc_jwk_destroy_twice [of jwk] d by simp
  then have "oidc_jwk_destroy_times n j = (j, [])"
    by (rule oidc_jwk_destroy_times_fixed)
  with d show ?thesis by simp
qed

text \<open>
  C10. \<^verbatim>\<open>oidc_jwk_destroy\<close> on \<open>NULL\<close> does nothing; after one call the key handle
  field of the JWK is \<open>NULL\<close>; a further call releases nothing and changes nothing;
  however many times it is called on the same JWK, the handles it releases are the
  ones of the first call: the handle the JWK held, once, or none at all.
\<close>

theorem oidc_jwk_destroy_null_safe_idempotent:
  "oidc_jwk_destroy None = (None, [])
   \<and> (\<exists>k'. fst (oidc_jwk_destroy (Some k)) = Some k' \<and> jwk_cjose_jwk k' = None)
   \<and> oidc_jwk_destroy (fst (oidc_jwk_destroy jwk)) = (fst (oidc_jwk_destroy jwk), [])
   \<and> snd (oidc_jwk_destroy_times (Suc n) jwk) = snd (oidc_jwk_destroy jwk)
   \<and> snd (oidc_jwk_destroy (Some k)) =
       (case jwk_cjose_jwk k of None \<Rightarrow> [] | Some h \<Rightarrow> [h])
   \<and> length (snd (oidc_jwk_destroy_times n jwk)) \<le> 1"
proof -
  have a: "oidc_jwk_destroy None = (None, [])"
    by (simp add: oidc_jwk_destroy_def)
  have b: "\<exists>k'. fst (oidc_jwk_destroy (Some k)) = Some k' \<and> jwk_cjose_jwk k' = None"
    by (simp add: oidc_jwk_destroy_def split: option.splits)
  have c: "snd (oidc_jwk_destroy (Some k)) =
       (case jwk_cjose_jwk k of None \<Rightarrow> [] | Some h \<Rightarrow> [h])"
    by (simp add: oidc_jwk_destroy_def split: option.splits)
  have one: "length (snd (oidc_jwk_destroy jwk)) \<le> 1"
    by (simp add: oidc_jwk_destroy_def split: option.splits)
  have d: "length (snd (oidc_jwk_destroy_times n jwk)) \<le> 1"
  proof (cases n)
    case 0
    then show ?thesis by simp
  next
    case (Suc m)
    then show ?thesis using oidc_jwk_destroy_times_released [of m jwk] one by simp
  qed
  from a b c d oidc_jwk_destroy_twice [of jwk] oidc_jwk_destroy_times_released [of n jwk]
  show ?thesis by simp
qed

theorem oidc_jwk_destroy_null_safe_idempotent_witness:
  "oidc_jwk_destroy (Some (jwk_of good_key))
     = (Some ((jwk_of good_key)\<lparr>jwk_cjose_jwk := None\<rparr>), [good_key])
   \<and> snd (oidc_jwk_destroy_times (Suc 2) (Some (jwk_of good_key))) = [good_key]"
proof -
  have once: "oidc_jwk_destroy (Some (jwk_of good_key))
     = (Some ((jwk_of good_key)\<lparr>jwk_cjose_jwk := None\<rparr>), [good_key])"
    by (simp add: oidc_jwk_destroy_def jwk_of_def)
  have "snd (oidc_jwk_destroy_times (Suc 2) (Some (jwk_of good_key)))
          = snd (oidc_jwk_destroy (Some (jwk_of good_key)))"
    using oidc_jwk_destroy_null_safe_idempotent
            [of "jwk_of good_key" "Some (jwk_of good_key)" 2]
    by blast
  with once show ?thesis by (simp only: snd_conv simp_thms)
qed

section \<open>Serialization of an unsigned token\<close>

lemma b64_groups_alphabet:
  "\<forall>x \<in> set xs. x < 256 \<Longrightarrow> length abc = 64 \<Longrightarrow> set (b64_groups abc [] xs) \<subseteq> set abc"
proof (induction abc "[] :: string" xs rule: b64_groups.induct)
  case (1 abc)
  then show ?case by simp
next
  case (2 abc a)
  then show ?case by (auto intro!: nth_mem)
next
  case (3 abc a b)
  then show ?case by (auto intro!: nth_mem)
next
  case (4 abc a b c rest)
  then show ?case by (auto intro!: nth_mem)
qed

lemma base64url_no_dot: "CHR ''.'' \<notin> set (cjose_base64url_encode s)"
proof -
  have "set (cjose_base64url_encode s) \<subseteq> set b64_url"
    unfolding cjose_base64url_encode_def
    by (rule b64_groups_alphabet) (auto simp: b64_url_def)
  moreover have "CHR ''.'' \<notin> set b64_url"
    by (simp add: b64_url_def)
  ultimately show ?thesis by blast
qed

lemma json_dumps_a1:
  "json_dumps rt True False (Some (JObject [(''a'', JInteger 1)])) = Some json_a1"
  by (simp add: json_dumps_def json_is_object_def json_a1_def dump_string_def dump_char_def
      dump_integer_def dec_digits.simps)

lemma base64url_a1: "cjose_base64url_encode json_a1 = ''eyJhIjoxfQ''"
  by (simp add: cjose_base64url_encode_def b64_url_def json_a1_def)

text \<open>
  C3. For a JWT whose \<^verbatim>\<open>header.alg\<close> is \<open>none\<close>, \<^verbatim>\<open>oidc_jwt_serialize\<close> returns
  the constant \<^verbatim>\<open>eyJhbGciOiJub25lIn0\<close>, a dot, the base64url text of the compact
  JSON serialization of the payload, and a trailing dot; the payload segment holds no
  dot, so the text after the second dot, the signature segment, is empty. For the
  payload \<^verbatim>\<open>{"a":1}\<close> the result is exactly
  \<^verbatim>\<open>eyJhbGciOiJub25lIn0.eyJhIjoxfQ.\<close>.
\<close>

theorem oidc_jwt_serialize_alg_none:
  assumes "hdr_alg (header jwt) = Some ''none''"
  shows "(\<forall>s_payload.
            json_dumps (json_real_text P) True False (pl_json (payload jwt)) = Some s_payload
            \<longrightarrow> oidc_jwt_serialize P jwt =
                  Returns (Some (''eyJhbGciOiJub25lIn0'' @ ''.''
                                 @ cjose_base64url_encode s_payload @ ''.''), None)
                \<and> CHR ''.'' \<notin> set (cjose_base64url_encode s_payload))
         \<and> (pl_json (payload jwt) = Some (JObject [(''a'', JInteger 1)])
            \<longrightarrow> oidc_jwt_serialize P jwt =
                  Returns (Some ''eyJhbGciOiJub25lIn0.eyJhIjoxfQ.'', None))"
proof -
  have general: "oidc_jwt_serialize P jwt =
      Returns (Some (''eyJhbGciOiJub25lIn0'' @ ''.'' @ cjose_base64url_encode s @ ''.''), None)"
    if "json_dumps (json_real_text P) True False (pl_json (payload jwt)) = Some s" for s
    using assms that
    by (simp add: oidc_jwt_serialize_def CJOSE_HDR_ALG_NONE_def OIDC_JOSE_HDR_ALG_NONE_def)
  have particular: "oidc_jwt_serialize P jwt =
      Returns (Some ''eyJhbGciOiJub25lIn0.eyJhIjoxfQ.'', None)"
    if "pl_json (payload jwt) = Some (JObject [(''a'', JInteger 1)])"
    using general [of json_a1] that by (simp add: json_dumps_a1 base64url_a1)
  from general particular base64url_no_dot show ?thesis by blast
qed

theorem oidc_jwt_serialize_alg_none_witness:
  "hdr_alg (header jwt_a1) = Some ''none''
   \<and> pl_json (payload jwt_a1) = Some (JObject [(''a'', JInteger 1)])
   \<and> oidc_jwt_serialize ext0 jwt_a1 = Returns (Some ''eyJhbGciOiJub25lIn0.eyJhIjoxfQ.'', None)"
proof -
  have alg: "hdr_alg (header jwt_a1) = Some ''none''"
    by (simp add: jwt_a1_def)
  have pl: "pl_json (payload jwt_a1) = Some (JObject [(''a'', JInteger 1)])"
    by (simp add: jwt_a1_def)
  from oidc_jwt_serialize_alg_none [OF alg, of ext0] alg pl show ?thesis by blast
qed

section \<open>Verification with a deprecated cjose\<close>

lemma verify_attempt_calls:
  "vs_calls (verify_attempt P jwk st) = vs_calls st @ [(cjose_jws (vs_jwt st), jwk_cjose_jwk jwk)]"
  by (simp add: verify_attempt_def Let_def split: sum.splits)

lemma verify_attempt_failed:
  "oidc_jose_version_deprecated P \<Longrightarrow>
   cjose_jws_verify P (cjose_jws (vs_jwt st)) (jwk_cjose_jwk jwk) = Inl e \<Longrightarrow>
   \<not> vs_rc (verify_attempt P jwk st) \<and> cjose_jws (vs_jwt (verify_attempt P jwk st)) = None"
  by (simp add: verify_attempt_def Let_def)

lemma verify_attempt_verified:
  "cjose_jws_verify P (cjose_jws (vs_jwt st)) (jwk_cjose_jwk jwk) = Inr u \<Longrightarrow>
   vs_rc (verify_attempt P jwk st) \<and> vs_jwt (verify_attempt P jwk st) = vs_jwt st"
  by (simp add: verify_attempt_def Let_def)

lemma verify_loop_deprecated:
  assumes dep: "oidc_jose_version_deprecated P"
  shows "oidc_jwt_verify_loop P ks st = Returns r \<Longrightarrow>
     r = st
     \<or> (\<exists>jwk. r = verify_attempt P jwk st)"
proof (induction ks arbitrary: st)
  case Nil
  then show ?case by simp
next
  case (Cons kv ks)
  obtain k jwk where kv: "kv = (k, jwk)" by (cases kv)
  from Cons.prems kv obtain kty where kty: "oidc_jwt_alg2kty P (vs_jwt st) = Returns kty"
    by (auto split: run.splits)
  show ?case
  proof (cases "jwk_kty jwk = kty")
    case False
    with Cons.prems kv kty have "r = st \<or> oidc_jwt_verify_loop P ks st = Returns r"
      by (auto split: if_splits)
    with Cons.IH show ?thesis by blast
  next
    case True
    have stop: "vs_rc (verify_attempt P jwk st) \<or> cjose_jws (vs_jwt (verify_attempt P jwk st)) = None"
      using verify_attempt_failed [OF dep, of st jwk] verify_attempt_verified [of P st jwk]
      by (cases "cjose_jws_verify P (cjose_jws (vs_jwt st)) (jwk_cjose_jwk jwk)") auto
    with Cons.prems kv kty True have "r = verify_attempt P jwk st"
      by (auto simp: Let_def)
    then show ?thesis by blast
  qed
qed

text \<open>
  C4. With a deprecated cjose (a version text that begins with \<open>0.4.\<close>), a call of
  \<^verbatim>\<open>cjose_jws_verify\<close> that fails inside \<^verbatim>\<open>oidc_jwt_verify\<close> is the last call of
  the primitive in that run: no further key is tried. The handle it was given is the
  handle the JWT had on entry, the JWT's handle is \<open>NULL\<close> when the function returns,
  and the function answers \<open>FALSE\<close>.
\<close>

theorem oidc_jwt_verify_deprecated:
  assumes dep: "oidc_jose_version_deprecated P"
    and ret: "oidc_jwt_verify P jwt keys = Returns r"
    and i: "i < length (vs_calls r)"
    and fail: "cjose_jws_verify P (fst (vs_calls r ! i)) (snd (vs_calls r ! i)) = Inl e"
  shows "Suc i = length (vs_calls r)
     \<and> fst (vs_calls r ! i) = cjose_jws jwt
     \<and> cjose_jws (vs_jwt r) = None
     \<and> \<not> vs_rc r"
proof -
  let ?st0 = "\<lparr>vs_rc = False, vs_jwt = jwt, vs_err = None, vs_calls = []\<rparr>"
  from ret obtain ks where ks: "keys = Some ks"
    by (cases keys) (auto simp: oidc_jwt_verify_def)
  have "\<exists>st. vs_calls r = vs_calls st \<and> vs_jwt r = vs_jwt st \<and> vs_rc r = vs_rc st
          \<and> (st = ?st0 \<or> (\<exists>jwk. st = verify_attempt P jwk ?st0))"
  proof (cases "hdr_kid (header jwt)")
    case (Some kid)
    show ?thesis
    proof (cases "map_of ks kid")
      case None
      with ret ks Some have "r = ?st0\<lparr>vs_err := Some (E_no_key_with_kid kid)\<rparr>"
        by (simp add: oidc_jwt_verify_def)
      then show ?thesis by (intro exI [of _ ?st0]) simp
    next
      case (Some jwk)
      with ret ks \<open>hdr_kid (header jwt) = Some kid\<close>
      have "r = verify_attempt P jwk ?st0"
        by (simp add: oidc_jwt_verify_def)
      then show ?thesis by (intro exI [of _ r]) blast
    qed
  next
    case None
    with ret ks obtain st where st: "oidc_jwt_verify_loop P ks ?st0 = Returns st"
      and r: "vs_calls r = vs_calls st \<and> vs_jwt r = vs_jwt st \<and> vs_rc r = vs_rc st"
      by (auto simp: oidc_jwt_verify_def split: run.splits if_splits)
    from verify_loop_deprecated [OF dep st] r show ?thesis by blast
  qed
  then obtain st where st: "vs_calls r = vs_calls st" "vs_jwt r = vs_jwt st" "vs_rc r = vs_rc st"
     "st = ?st0 \<or> (\<exists>jwk. st = verify_attempt P jwk ?st0)" by blast
  from st(4) i st(1) obtain jwk where a: "st = verify_attempt P jwk ?st0"
    by auto
  have calls: "vs_calls st = [(cjose_jws jwt, jwk_cjose_jwk jwk)]"
    using verify_attempt_calls [of P jwk ?st0] a by simp
  from i st(1) calls have i0: "i = 0" by simp
  with fail st(1) calls have "cjose_jws_verify P (cjose_jws jwt) (jwk_cjose_jwk jwk) = Inl e"
    by simp
  with verify_attempt_failed [OF dep, of ?st0 jwk e] a
  have "\<not> vs_rc st \<and> cjose_jws (vs_jwt st) = None" by simp
  with st i0 calls show ?thesis by simp
qed

theorem oidc_jwt_verify_deprecated_witness:
  "oidc_jose_version_deprecated ext0
   \<and> oidc_jwt_verify ext0 jwt_rs256 (Some ks_bad_good) =
       Returns \<lparr>vs_rc = False, vs_jwt = jwt_rs256\<lparr>cjose_jws := None\<rparr>,
                vs_err = Some (E_verify_any 2),
                vs_calls = [(Some jws0, Some bad_key)]\<rparr>
   \<and> cjose_jws_verify ext0 (Some jws0) (Some bad_key) = Inl CJOSE_ERR_CRYPTO
   \<and> cjose_jws_verify ext0 (Some jws0) (Some good_key) = Inr ()
   \<and> Suc 0 = length [(Some jws0, Some bad_key)]"
proof -
  let ?r = "\<lparr>vs_rc = False, vs_jwt = jwt_rs256\<lparr>cjose_jws := None\<rparr>,
             vs_err = Some (E_verify_any 2),
             vs_calls = [(Some jws0, Some bad_key)]\<rparr>"
  have dep: "oidc_jose_version_deprecated ext0"
    by (simp add: oidc_jose_version_deprecated_def OIDC_JOSE_CJOSE_VERSION_DEPRECATED_def
        ext0_def)
  have run: "oidc_jwt_verify ext0 jwt_rs256 (Some ks_bad_good) = Returns ?r"
    by (simp add: oidc_jwt_verify_def oidc_jwt_alg2kty_def verify_attempt_def Let_def
        oidc_jose_version_deprecated_def OIDC_JOSE_CJOSE_VERSION_DEPRECATED_def
        jwt_rs256_def jws0_def ks_bad_good_def sample_defs alg2kty_defs)
  have bad: "cjose_jws_verify ext0 (fst (vs_calls ?r ! 0)) (snd (vs_calls ?r ! 0))
      = Inl CJOSE_ERR_CRYPTO"
    by (simp add: jws0_def sample_defs)
  have good: "cjose_jws_verify ext0 (Some jws0) (Some good_key) = Inr ()"
    by (simp add: jws0_def sample_defs)
  have i: "0 < length (vs_calls ?r)" by simp
  from oidc_jwt_verify_deprecated [OF dep run i bad]
  have last: "Suc 0 = length (vs_calls ?r)" by blast
  have calls: "vs_calls ?r = [(Some jws0, Some bad_key)]" by simp
  from bad have bad': "cjose_jws_verify ext0 (Some jws0) (Some bad_key) = Inl CJOSE_ERR_CRYPTO"
    by simp
  from last calls have "Suc 0 = length [(Some jws0, Some bad_key)]"
    by (simp only:)
  with dep run bad' good show ?thesis by blast
qed

section \<open>The key trial of decryption\<close>

lemma decrypt_loop_trace:
  "ds_decrypted st = None \<Longrightarrow>
   \<exists>r. oidc_jwe_decrypt_loop P jwe (Some a) ks st = Returns r
      \<and> ds_calls r = ds_calls st
           @ map jwk_cjose_jwk (decrypt_tried P jwe (decrypt_candidates P a ks))
      \<and> ds_decrypted r =
          (case dropWhile (decrypt_fails P jwe) (decrypt_candidates P a ks) of
             [] \<Rightarrow> None | jwk # rest \<Rightarrow> attempt_plain P jwe jwk)
      \<and> ds_cjose_err r =
          (case rev (takeWhile (decrypt_fails P jwe) (decrypt_candidates P a ks)) of
             [] \<Rightarrow> ds_cjose_err st | jwk # rest \<Rightarrow> attempt_error P jwe jwk)
      \<and> ds_err r = ds_err st"
proof (induction ks arbitrary: st)
  case Nil
  then show ?case by (simp add: decrypt_candidates_def decrypt_tried_def)
next
  case (Cons kv ks)
  obtain k jwk where kv: "kv = (k, jwk)" by (cases kv)
  show ?case
  proof (cases "jwk_kty jwk = oidc_alg2kty (OIDC_JOSE_EC_SUPPORT P) a")
    case False
    with Cons kv show ?thesis
      by (simp add: decrypt_candidates_def)
  next
    case match: True
    show ?thesis
    proof (cases "cjose_jwe_decrypt P jwe (jwk_cjose_jwk jwk)")
      case (Inr content)
      with match kv Cons.prems show ?thesis
        by (simp add: decrypt_candidates_def decrypt_tried_def decrypt_fails_def
            decrypt_attempt_def attempt_plain_def)
    next
      case (Inl e)
      let ?st' = "decrypt_attempt P jwe jwk st"
      have none: "ds_decrypted ?st' = None"
        using Inl by (simp add: decrypt_attempt_def)
      from Cons.IH [OF none] obtain r where
        r: "oidc_jwe_decrypt_loop P jwe (Some a) ks ?st' = Returns r"
          "ds_calls r = ds_calls ?st'
             @ map jwk_cjose_jwk (decrypt_tried P jwe (decrypt_candidates P a ks))"
          "ds_decrypted r =
            (case dropWhile (decrypt_fails P jwe) (decrypt_candidates P a ks) of
               [] \<Rightarrow> None | jwk # rest \<Rightarrow> attempt_plain P jwe jwk)"
          "ds_cjose_err r =
            (case rev (takeWhile (decrypt_fails P jwe) (decrypt_candidates P a ks)) of
               [] \<Rightarrow> ds_cjose_err ?st' | jwk # rest \<Rightarrow> attempt_error P jwe jwk)"
          "ds_err r = ds_err ?st'"
        by blast
      have loop: "oidc_jwe_decrypt_loop P jwe (Some a) (kv # ks) st = Returns r"
        using kv match none r(1) by simp
      have cands: "decrypt_candidates P a (kv # ks) = jwk # decrypt_candidates P a ks"
        using kv match by (simp add: decrypt_candidates_def)
      have fails: "decrypt_fails P jwe jwk"
        using Inl by (simp add: decrypt_fails_def)
      have st': "ds_calls ?st' = ds_calls st @ [jwk_cjose_jwk jwk]"
        "ds_cjose_err ?st' = Some e" "ds_err ?st' = ds_err st"
        using Inl by (simp_all add: decrypt_attempt_def)
      have err: "attempt_error P jwe jwk = Some e"
        using Inl by (simp add: attempt_error_def)
      show ?thesis
        using loop r(2-5) cands fails st' err
        by (auto simp: decrypt_tried_def split: list.splits)
    qed
  qed
qed

lemma decrypt_tried_candidates:
  "set (decrypt_tried P jwe cs) \<subseteq> set cs"
proof -
  have "set (takeWhile (decrypt_fails P jwe) cs) \<subseteq> set cs"
    by (auto dest: set_takeWhileD)
  moreover have "set (take 1 (dropWhile (decrypt_fails P jwe) cs)) \<subseteq> set cs"
    by (meson set_dropWhileD set_take_subset subsetD subsetI)
  ultimately show ?thesis by (auto simp: decrypt_tried_def)
qed

lemma decrypt_tried_butlast:
  "jwk \<in> set (butlast (decrypt_tried P jwe cs)) \<Longrightarrow> decrypt_fails P jwe jwk"
proof (cases "dropWhile (decrypt_fails P jwe) cs")
  case Nil
  assume "jwk \<in> set (butlast (decrypt_tried P jwe cs))"
  then have "jwk \<in> set (butlast (takeWhile (decrypt_fails P jwe) cs))"
    unfolding decrypt_tried_def Nil by simp
  then have "jwk \<in> set (takeWhile (decrypt_fails P jwe) cs)"
    by (rule in_set_butlastD)
  then show ?thesis by (rule set_takeWhileD [THEN conjunct2])
next
  case (Cons x xs)
  assume "jwk \<in> set (butlast (decrypt_tried P jwe cs))"
  then have "jwk \<in> set (takeWhile (decrypt_fails P jwe) cs)"
    unfolding decrypt_tried_def Cons by (simp add: butlast_append)
  then show ?thesis by (rule set_takeWhileD [THEN conjunct2])
qed

lemma decrypt_all_failed:
  assumes "(case dropWhile (decrypt_fails P jwe) cs of
              [] \<Rightarrow> None | jwk # rest \<Rightarrow> attempt_plain P jwe jwk) = None"
  shows "takeWhile (decrypt_fails P jwe) cs = cs \<and> decrypt_tried P jwe cs = cs"
proof (cases "dropWhile (decrypt_fails P jwe) cs")
  case Nil
  have "takeWhile (decrypt_fails P jwe) cs @ dropWhile (decrypt_fails P jwe) cs = cs"
    by (rule takeWhile_dropWhile_id)
  then have tw: "takeWhile (decrypt_fails P jwe) cs = cs"
    unfolding Nil by simp
  have "decrypt_tried P jwe cs = takeWhile (decrypt_fails P jwe) cs"
    unfolding decrypt_tried_def Nil by simp
  with tw show ?thesis by simp
next
  case (Cons x xs)
  have "\<not> decrypt_fails P jwe (hd (dropWhile (decrypt_fails P jwe) cs))"
    by (rule hd_dropWhile) (simp add: Cons)
  then have "\<not> decrypt_fails P jwe x"
    unfolding Cons by simp
  then have "attempt_plain P jwe x \<noteq> None"
    by (cases "cjose_jwe_decrypt P jwe (jwk_cjose_jwk x)")
       (simp_all add: decrypt_fails_def attempt_plain_def)
  with assms show ?thesis unfolding Cons by simp
qed

lemma decrypt_last_error:
  assumes all: "takeWhile (decrypt_fails P jwe) cs = cs" and ne: "cs \<noteq> []"
  shows "\<exists>e. attempt_error P jwe (last cs) = Some e
           \<and> (case rev cs of [] \<Rightarrow> d | jwk # rest \<Rightarrow> attempt_error P jwe jwk) = Some e"
proof -
  from ne have "last cs \<in> set cs" by simp
  then have "last cs \<in> set (takeWhile (decrypt_fails P jwe) cs)" by (simp only: all)
  then have "decrypt_fails P jwe (last cs)" by (rule set_takeWhileD [THEN conjunct2])
  then obtain e where "cjose_jwe_decrypt P jwe (jwk_cjose_jwk (last cs)) = Inl e"
    by (cases "cjose_jwe_decrypt P jwe (jwk_cjose_jwk (last cs))")
       (simp_all add: decrypt_fails_def)
  then have e: "attempt_error P jwe (last cs) = Some e"
    by (simp add: attempt_error_def)
  from ne have rv: "rev cs = last cs # rev (butlast cs)"
    by (induction cs rule: rev_induct) simp_all
  have "(case rev cs of [] \<Rightarrow> d | jwk # rest \<Rightarrow> attempt_error P jwe jwk) = Some e"
    by (simp only: rv list.case e)
  with e show ?thesis by blast
qed

text \<open>
  With no kid in the header and no key of the algorithm's type in a keyset that is not
  empty, no attempt is made, and the error message is formatted from the local
  \<^verbatim>\<open>cjose_err\<close> that nothing has written: the call has no defined result.
\<close>

lemma oidc_jwe_decrypt_impl_no_candidate:
  assumes nokid: "cjose_header_get (cjose_jwe_get_protected jwe) CJOSE_HDR_KID = None"
    and alg: "cjose_header_get (cjose_jwe_get_protected jwe) CJOSE_HDR_ALG = Some a"
    and ne: "ks \<noteq> []"
    and cand: "decrypt_candidates P a ks = []"
  shows "oidc_jwe_decrypt_impl P jwe (Some ks) = Fault UninitRead"
proof -
  let ?st0 = "\<lparr>ds_decrypted = None, ds_cjose_err = None, ds_err = None, ds_calls = []\<rparr>"
  from decrypt_loop_trace [of ?st0 P jwe a ks] cand obtain st where
    "oidc_jwe_decrypt_loop P jwe (Some a) ks ?st0 = Returns st"
    "ds_decrypted st = None" "ds_cjose_err st = None"
    by auto
  with nokid alg ne show ?thesis
    by (simp add: oidc_jwe_decrypt_impl_def Let_def)
qed

text \<open>
  C5, as the code has it. When the protected header has no kid and the keyset holds at
  least one key whose \<open>kty\<close> equals \<^verbatim>\<open>oidc_alg2kty\<close> of the header's \<open>alg\<close>,
  \<^verbatim>\<open>oidc_jwe_decrypt_impl\<close> calls \<^verbatim>\<open>cjose_jwe_decrypt\<close> with the keys of that type,
  in the order of the iteration, and stops with the first that decrypts: every key
  tried before the last one failed, and the plaintext is that of the first key that
  does not fail. If no attempt succeeds, every key of that type was tried, and the
  error reports the number of keys in the keyset (\<^verbatim>\<open>apr_hash_count(keys)\<close>: keys of
  another type, which were never tried, are counted too) and the diagnostic of the
  last attempt only. Nothing is stated here of a keyset without a key of that type.
\<close>

theorem oidc_jwe_decrypt_impl_no_kid:
  assumes nokid: "cjose_header_get (cjose_jwe_get_protected jwe) CJOSE_HDR_KID = None"
    and alg: "cjose_header_get (cjose_jwe_get_protected jwe) CJOSE_HDR_ALG = Some a"
    and cand: "decrypt_candidates P a ks \<noteq> []"
  shows "\<exists>r. oidc_jwe_decrypt_impl P jwe (Some ks) = Returns r
      \<and> ds_calls r = map jwk_cjose_jwk (decrypt_tried P jwe (decrypt_candidates P a ks))
      \<and> (\<forall>jwk \<in> set (decrypt_tried P jwe (decrypt_candidates P a ks)).
            jwk \<in> snd ` set ks \<and> jwk_kty jwk = oidc_alg2kty (OIDC_JOSE_EC_SUPPORT P) a)
      \<and> (\<forall>jwk \<in> set (butlast (decrypt_tried P jwe (decrypt_candidates P a ks))).
            decrypt_fails P jwe jwk)
      \<and> ds_decrypted r =
          (case dropWhile (decrypt_fails P jwe) (decrypt_candidates P a ks) of
             [] \<Rightarrow> None | jwk # rest \<Rightarrow> attempt_plain P jwe jwk)
      \<and> (ds_decrypted r = None \<longrightarrow>
            decrypt_tried P jwe (decrypt_candidates P a ks) = decrypt_candidates P a ks
            \<and> (\<exists>e. attempt_error P jwe (last (decrypt_candidates P a ks)) = Some e
                   \<and> ds_err r = Some (E_decrypt_any (length ks) e)))
      \<and> (ds_decrypted r \<noteq> None \<longrightarrow> ds_err r = None)"
proof -
  let ?st0 = "\<lparr>ds_decrypted = None, ds_cjose_err = None, ds_err = None, ds_calls = []\<rparr>"
  let ?cs = "decrypt_candidates P a ks"
  from cand have ne: "ks \<noteq> []"
    by (auto simp: decrypt_candidates_def)
  from decrypt_loop_trace [of ?st0 P jwe a ks] obtain st where
    st: "oidc_jwe_decrypt_loop P jwe (Some a) ks ?st0 = Returns st"
      "ds_calls st = map jwk_cjose_jwk (decrypt_tried P jwe ?cs)"
      "ds_decrypted st =
         (case dropWhile (decrypt_fails P jwe) ?cs of
            [] \<Rightarrow> None | jwk # rest \<Rightarrow> attempt_plain P jwe jwk)"
      "ds_cjose_err st =
         (case rev (takeWhile (decrypt_fails P jwe) ?cs) of
            [] \<Rightarrow> None | jwk # rest \<Rightarrow> attempt_error P jwe jwk)"
      "ds_err st = None"
    by (auto cong: list.case_cong)
  have kty: "\<forall>jwk \<in> set (decrypt_tried P jwe ?cs).
      jwk \<in> snd ` set ks \<and> jwk_kty jwk = oidc_alg2kty (OIDC_JOSE_EC_SUPPORT P) a"
    using decrypt_tried_candidates [of P jwe ?cs]
    by (auto simp: decrypt_candidates_def)
  have order: "\<forall>jwk \<in> set (butlast (decrypt_tried P jwe ?cs)). decrypt_fails P jwe jwk"
    using decrypt_tried_butlast by blast
  show ?thesis
  proof (cases "ds_decrypted st = None")
    case none: True
    with st(3) decrypt_all_failed [of P jwe ?cs]
    have all: "takeWhile (decrypt_fails P jwe) ?cs = ?cs" "decrypt_tried P jwe ?cs = ?cs"
      by simp_all
    from decrypt_last_error [OF all(1) cand, of None] obtain e where
      e: "attempt_error P jwe (last ?cs) = Some e"
        "(case rev ?cs of [] \<Rightarrow> None | jwk # rest \<Rightarrow> attempt_error P jwe jwk) = Some e"
      by blast
    from st(4) all(1) e(2) have cerr: "ds_cjose_err st = Some e" by simp
    define r where "r = st\<lparr>ds_err := Some (E_decrypt_any (length ks) e)\<rparr>"
    have impl: "oidc_jwe_decrypt_impl P jwe (Some ks) = Returns r"
      using nokid alg ne st(1) none cerr
      by (simp add: oidc_jwe_decrypt_impl_def Let_def r_def)
    show ?thesis
    proof (intro exI [of _ r] conjI impI)
      show "oidc_jwe_decrypt_impl P jwe (Some ks) = Returns r" by (rule impl)
      show "ds_calls r = map jwk_cjose_jwk (decrypt_tried P jwe ?cs)"
        using st(2) by (simp add: r_def)
      show "\<forall>jwk \<in> set (decrypt_tried P jwe ?cs).
        jwk \<in> snd ` set ks \<and> jwk_kty jwk = oidc_alg2kty (OIDC_JOSE_EC_SUPPORT P) a"
        by (rule kty)
      show "\<forall>jwk \<in> set (butlast (decrypt_tried P jwe ?cs)). decrypt_fails P jwe jwk"
        by (rule order)
      show "ds_decrypted r =
        (case dropWhile (decrypt_fails P jwe) ?cs of
           [] \<Rightarrow> None | jwk # rest \<Rightarrow> attempt_plain P jwe jwk)"
        using st(3) by (simp add: r_def)
      show "decrypt_tried P jwe ?cs = ?cs" by (rule all(2))
      show "\<exists>e. attempt_error P jwe (last ?cs) = Some e
              \<and> ds_err r = Some (E_decrypt_any (length ks) e)"
        using e(1) by (simp add: r_def)
    next
      assume "ds_decrypted r \<noteq> None"
      with none show "ds_err r = None" by (simp add: r_def)
    qed
  next
    case some: False
    have impl: "oidc_jwe_decrypt_impl P jwe (Some ks) = Returns st"
      using nokid alg ne st(1) some
      by (auto simp: oidc_jwe_decrypt_impl_def Let_def)
    show ?thesis
    proof (intro exI [of _ st] conjI impI)
      show "oidc_jwe_decrypt_impl P jwe (Some ks) = Returns st" by (rule impl)
      show "ds_calls st = map jwk_cjose_jwk (decrypt_tried P jwe ?cs)" by (rule st(2))
      show "\<forall>jwk \<in> set (decrypt_tried P jwe ?cs).
        jwk \<in> snd ` set ks \<and> jwk_kty jwk = oidc_alg2kty (OIDC_JOSE_EC_SUPPORT P) a"
        by (rule kty)
      show "\<forall>jwk \<in> set (butlast (decrypt_tried P jwe ?cs)). decrypt_fails P jwe jwk"
        by (rule order)
      show "ds_decrypted st =
        (case dropWhile (decrypt_fails P jwe) ?cs of
           [] \<Rightarrow> None | jwk # rest \<Rightarrow> attempt_plain P jwe jwk)"
        by (rule st(3))
    next
      assume "ds_decrypted st = None"
      with some show "decrypt_tried P jwe ?cs = ?cs" by simp
    next
      assume "ds_decrypted st = None"
      with some show "\<exists>e. attempt_error P jwe (last ?cs) = Some e
              \<and> ds_err st = Some (E_decrypt_any (length ks) e)" by simp
    next
      assume "ds_decrypted st \<noteq> None"
      show "ds_err st = None" by (rule st(5))
    qed
  qed
qed

theorem oidc_jwe_decrypt_impl_no_kid_witness:
  "cjose_header_get (cjose_jwe_get_protected jwe0) CJOSE_HDR_KID = None
   \<and> cjose_header_get (cjose_jwe_get_protected jwe0) CJOSE_HDR_ALG = Some ''RSA1_5''
   \<and> (\<exists>r. oidc_jwe_decrypt_impl ext0 jwe0 (Some ks_oct_bad_good) = Returns r
          \<and> ds_calls r = [Some bad_key, Some good_key]
          \<and> ds_decrypted r = Some ''jws'')"
proof -
  have nokid: "cjose_header_get (cjose_jwe_get_protected jwe0) CJOSE_HDR_KID = None"
    by (simp add: jwe0_def sample_defs)
  have alg: "cjose_header_get (cjose_jwe_get_protected jwe0) CJOSE_HDR_ALG = Some ''RSA1_5''"
    by (simp add: jwe0_def sample_defs)
  have cands: "decrypt_candidates ext0 ''RSA1_5'' ks_oct_bad_good
      = [jwk_of bad_key, jwk_of good_key]"
    by (simp add: decrypt_candidates_def ks_oct_bad_good_def sample_defs alg2kty_defs)
  have fails: "decrypt_fails ext0 jwe0 (jwk_of bad_key)"
    "\<not> decrypt_fails ext0 jwe0 (jwk_of good_key)"
    by (simp_all add: decrypt_fails_def sample_defs)
  have tried: "decrypt_tried ext0 jwe0 [jwk_of bad_key, jwk_of good_key]
      = [jwk_of bad_key, jwk_of good_key]"
    using fails by (simp add: decrypt_tried_def)
  have dw: "dropWhile (decrypt_fails ext0 jwe0) [jwk_of bad_key, jwk_of good_key]
      = [jwk_of good_key]"
    using fails by simp
  have plain: "attempt_plain ext0 jwe0 (jwk_of good_key) = Some ''jws''"
    by (simp add: attempt_plain_def sample_defs)
  have handles: "map jwk_cjose_jwk [jwk_of bad_key, jwk_of good_key]
      = [Some bad_key, Some good_key]"
    by (simp add: jwk_of_def)
  have cand: "decrypt_candidates ext0 ''RSA1_5'' ks_oct_bad_good \<noteq> []"
    by (simp only: cands) simp
  from oidc_jwe_decrypt_impl_no_kid [OF nokid alg cand]
  obtain r where r: "oidc_jwe_decrypt_impl ext0 jwe0 (Some ks_oct_bad_good) = Returns r"
    "ds_calls r = map jwk_cjose_jwk
       (decrypt_tried ext0 jwe0 (decrypt_candidates ext0 ''RSA1_5'' ks_oct_bad_good))"
    "ds_decrypted r =
       (case dropWhile (decrypt_fails ext0 jwe0)
               (decrypt_candidates ext0 ''RSA1_5'' ks_oct_bad_good) of
          [] \<Rightarrow> None | jwk # rest \<Rightarrow> attempt_plain ext0 jwe0 jwk)"
    by blast
  from r(2) have "ds_calls r = [Some bad_key, Some good_key]"
    by (simp only: cands tried handles)
  moreover from r(3) have "ds_decrypted r = Some ''jws''"
    by (simp only: cands dw plain list.case)
  ultimately show ?thesis using nokid alg r(1) by blast
qed

text \<open>
  The claim as stated fails: with an octet key and an RSA key in the keyset and the
  algorithm RSA1_5, one key is tried, and the error reports two.
\<close>

theorem oidc_jwe_decrypt_impl_count_counterexample:
  "oidc_jwe_decrypt_impl ext0 jwe0 (Some ks_oct_bad) =
     Returns \<lparr>ds_decrypted = None, ds_cjose_err = Some CJOSE_ERR_CRYPTO,
              ds_err = Some (E_decrypt_any 2 CJOSE_ERR_CRYPTO),
              ds_calls = [Some bad_key]\<rparr>
   \<and> length [Some bad_key] \<noteq> (2 :: nat)"
  by (simp add: oidc_jwe_decrypt_impl_def decrypt_attempt_def Let_def
      jwe0_def ks_oct_bad_def sample_defs alg2kty_defs)

section \<open>An empty or absent keyset\<close>

text \<open>
  C1, as the code has it. For a keyset that is \<open>NULL\<close> or empty, \<^verbatim>\<open>oidc_jwe_decrypt\<close>
  on a text that imports as a JWE writes the error \<open>no decryption keys configured\<close>,
  never calls \<^verbatim>\<open>cjose_jwe_decrypt\<close>, leaves the caller's output as it was and
  returns \<^verbatim>\<open>*s_json != NULL\<close>: \<open>FALSE\<close> when the caller's output was \<open>NULL\<close> on
  entry. For an empty keyset \<^verbatim>\<open>oidc_jwt_verify\<close> returns \<open>FALSE\<close> and never calls
  \<^verbatim>\<open>cjose_jws_verify\<close>; it has no test for the keyset, and the error it writes is
  \<open>could not find key with kid\<close> when the header has a kid, and otherwise the message
  for zero provided keys with its hint about the algorithm.
\<close>

theorem empty_keyset_fails_without_primitive:
  "((keys = None \<or> keys = Some []) \<and> cjose_jwe_import P input_json = Inr jwe \<longrightarrow>
      oidc_jwe_decrypt P input_json keys s_json0 import_must_succeed =
        Returns \<lparr>dr_rc = (s_json0 \<noteq> None), dr_s_json = s_json0,
                 dr_err = Some E_no_decryption_keys, dr_calls = []\<rparr>)
   \<and> oidc_jwt_verify P jwt (Some []) =
        Returns \<lparr>vs_rc = False, vs_jwt = jwt,
                 vs_err = Some (case hdr_kid (header jwt) of
                                  Some kid \<Rightarrow> E_no_key_with_kid kid
                                | None \<Rightarrow> E_verify_any_hint 0 (hdr_alg (header jwt))),
                 vs_calls = []\<rparr>"
proof -
  have dec: "oidc_jwe_decrypt P input_json keys s_json0 import_must_succeed =
        Returns \<lparr>dr_rc = (s_json0 \<noteq> None), dr_s_json = s_json0,
                 dr_err = Some E_no_decryption_keys, dr_calls = []\<rparr>"
    if "keys = None \<or> keys = Some []" "cjose_jwe_import P input_json = Inr jwe"
    using that by (auto simp: oidc_jwe_decrypt_def oidc_jwe_decrypt_impl_def Let_def)
  have ver: "oidc_jwt_verify P jwt (Some []) =
        Returns \<lparr>vs_rc = False, vs_jwt = jwt,
                 vs_err = Some (case hdr_kid (header jwt) of
                                  Some kid \<Rightarrow> E_no_key_with_kid kid
                                | None \<Rightarrow> E_verify_any_hint 0 (hdr_alg (header jwt))),
                 vs_calls = []\<rparr>"
    by (cases "hdr_kid (header jwt)") (simp_all add: oidc_jwt_verify_def)
  from dec ver show ?thesis by blast
qed

theorem empty_keyset_fails_without_primitive_witness:
  "cjose_jwe_import ext0 ''jwe'' = Inr jwe0
   \<and> oidc_jwe_decrypt ext0 ''jwe'' (Some []) None True =
       Returns \<lparr>dr_rc = False, dr_s_json = None,
                dr_err = Some E_no_decryption_keys, dr_calls = []\<rparr>
   \<and> oidc_jwe_decrypt ext0 ''jwe'' None None False =
       Returns \<lparr>dr_rc = False, dr_s_json = None,
                dr_err = Some E_no_decryption_keys, dr_calls = []\<rparr>
   \<and> oidc_jwt_verify ext0 jwt_rs256 (Some []) =
       Returns \<lparr>vs_rc = False, vs_jwt = jwt_rs256,
                vs_err = Some (E_verify_any_hint 0 (Some ''RS256'')), vs_calls = []\<rparr>"
proof -
  have imp: "cjose_jwe_import ext0 ''jwe'' = Inr jwe0"
    by (simp add: jwe0_def sample_defs)
  have kid: "hdr_kid (header jwt_rs256) = None" and alg: "hdr_alg (header jwt_rs256) = Some ''RS256''"
    by (simp_all add: jwt_rs256_def sample_defs)
  from empty_keyset_fails_without_primitive
         [of "Some []" ext0 "''jwe''" jwe0 None True jwt_rs256] imp
  have a: "oidc_jwe_decrypt ext0 ''jwe'' (Some []) None True =
       Returns \<lparr>dr_rc = (None \<noteq> (None :: string option)), dr_s_json = None,
                dr_err = Some E_no_decryption_keys, dr_calls = []\<rparr>"
    and c: "oidc_jwt_verify ext0 jwt_rs256 (Some []) =
        Returns \<lparr>vs_rc = False, vs_jwt = jwt_rs256,
                 vs_err = Some (case hdr_kid (header jwt_rs256) of
                                  Some kid \<Rightarrow> E_no_key_with_kid kid
                                | None \<Rightarrow> E_verify_any_hint 0 (hdr_alg (header jwt_rs256))),
                 vs_calls = []\<rparr>"
    by blast+
  from empty_keyset_fails_without_primitive
         [of None ext0 "''jwe''" jwe0 None False jwt_rs256] imp
  have b: "oidc_jwe_decrypt ext0 ''jwe'' None None False =
       Returns \<lparr>dr_rc = (None \<noteq> (None :: string option)), dr_s_json = None,
                dr_err = Some E_no_decryption_keys, dr_calls = []\<rparr>"
    by blast
  from a b c imp show ?thesis
    by (simp only: kid alg option.case simp_thms)
qed

text \<open>
  The claim as stated fails for verification: with an empty keyset and a kid in the
  header, the error is that no key with that kid was found, not that no keys are
  configured.
\<close>

theorem verify_empty_keyset_counterexample:
  "oidc_jwt_verify ext0 jwt_rs256_kid (Some []) =
     Returns \<lparr>vs_rc = False, vs_jwt = jwt_rs256_kid,
              vs_err = Some (E_no_key_with_kid ''k1''), vs_calls = []\<rparr>
   \<and> \<not> no_keys_configured (E_no_key_with_kid ''k1'')"
  by (simp add: oidc_jwt_verify_def no_keys_configured_def jwt_rs256_kid_def jwt_rs256_def
      sample_defs)

section \<open>A text that is not a JWE\<close>

text \<open>
  C8, as the code has it. For a text that does not import as a JWE,
  \<^verbatim>\<open>oidc_jwe_decrypt\<close> with \<^verbatim>\<open>import_must_succeed\<close> \<open>FALSE\<close> returns \<open>TRUE\<close> and
  a copy of the input text, with no error and no call of the primitive; with \<open>TRUE\<close>
  it writes the import error, does not assign the output, and returns
  \<^verbatim>\<open>*s_json != NULL\<close>: \<open>FALSE\<close> when the caller's output was \<open>NULL\<close> on entry.
\<close>

theorem oidc_jwe_decrypt_import_failure:
  assumes "cjose_jwe_import P input_json = Inl e"
  shows "oidc_jwe_decrypt P input_json keys s_json0 False =
           Returns \<lparr>dr_rc = True, dr_s_json = Some input_json, dr_err = None, dr_calls = []\<rparr>
       \<and> oidc_jwe_decrypt P input_json keys s_json0 True =
           Returns \<lparr>dr_rc = (s_json0 \<noteq> None), dr_s_json = s_json0,
                    dr_err = Some (E_jwe_import e), dr_calls = []\<rparr>
       \<and> oidc_jwe_decrypt P input_json keys None True =
           Returns \<lparr>dr_rc = False, dr_s_json = None,
                    dr_err = Some (E_jwe_import e), dr_calls = []\<rparr>"
  using assms by (simp add: oidc_jwe_decrypt_def)

theorem oidc_jwe_decrypt_import_failure_witness:
  "cjose_jwe_import ext0 ''plain'' = Inl CJOSE_ERR_INVALID_ARG
   \<and> oidc_jwe_decrypt ext0 ''plain'' (Some ks_bad_good) None False =
       Returns \<lparr>dr_rc = True, dr_s_json = Some ''plain'', dr_err = None, dr_calls = []\<rparr>
   \<and> oidc_jwe_decrypt ext0 ''plain'' (Some ks_bad_good) None True =
       Returns \<lparr>dr_rc = False, dr_s_json = None,
                dr_err = Some (E_jwe_import CJOSE_ERR_INVALID_ARG), dr_calls = []\<rparr>"
proof -
  have imp: "cjose_jwe_import ext0 ''plain'' = Inl CJOSE_ERR_INVALID_ARG"
    by (simp add: sample_defs)
  from oidc_jwe_decrypt_import_failure [OF imp, of "Some ks_bad_good" None] imp
  show ?thesis by blast
qed

text \<open>
  The claim as stated fails: when the caller's output already holds a string, the call
  with \<^verbatim>\<open>import_must_succeed\<close> \<open>TRUE\<close> on a text that is not a JWE returns \<open>TRUE\<close>.
\<close>

theorem oidc_jwe_decrypt_must_succeed_counterexample:
  "cjose_jwe_import ext0 ''plain'' = Inl CJOSE_ERR_INVALID_ARG
   \<and> oidc_jwe_decrypt ext0 ''plain'' None (Some ''old'') True =
       Returns \<lparr>dr_rc = True, dr_s_json = Some ''old'',
                dr_err = Some (E_jwe_import CJOSE_ERR_INVALID_ARG), dr_calls = []\<rparr>"
  by (simp add: oidc_jwe_decrypt_def sample_defs)

section \<open>Failures of the parser\<close>

text \<open>The stages that clean up: when the import of the JWS fails, or the payload is
  not JSON or not a JSON object, the caller's pointer is \<open>NULL\<close> and the signature
  handle, if one was obtained, has been released.\<close>

lemma oidc_jwt_parse_cleans_up:
  assumes "cjose_jwe_import P input_json = Inl e0"
  shows "cjose_jws_import P input_json = Inl e \<Longrightarrow>
           oidc_jwt_parse P input_json j_jwt0 keys =
             Returns \<lparr>pr_rc = False, pr_j_jwt = None, pr_err = Some (E_jws_import e),
                      pr_released = []\<rparr>"
    and "cjose_jws_import P input_json = Inr jws \<Longrightarrow>
         cjose_jws_get_plaintext P jws = Inr plaintext \<Longrightarrow>
         \<not> fst (oidc_jose_parse_payload P plaintext (payload (oidc_jwt_new False False))) \<Longrightarrow>
           oidc_jwt_parse P input_json j_jwt0 keys =
             Returns \<lparr>pr_rc = False, pr_j_jwt = None,
                      pr_err = snd (snd (oidc_jose_parse_payload P plaintext
                                           (payload (oidc_jwt_new False False)))),
                      pr_released = [jws]\<rparr>"
  using assms
  by (simp_all add: oidc_jwt_parse_def oidc_jwe_decrypt_def oidc_jwt_destroy_def Let_def
      oidc_jwt_new_def)

lemma oidc_jose_parse_payload_failures:
  "\<not> fst (oidc_jose_parse_payload P plaintext pl) \<longleftrightarrow>
     (case json_loads P (c_str plaintext) of Inl t \<Rightarrow> True | Inr j \<Rightarrow> \<not> json_is_object j)"
  by (simp add: oidc_jose_parse_payload_def Let_def split: sum.splits)

text \<open>The stage that does not: when the plaintext cannot be extracted, the function
  returns \<open>FALSE\<close> at once (jose.c 831-836), and the caller's pointer keeps the JWT
  built so far, with its signature handle not released.\<close>

lemma oidc_jwt_parse_get_plaintext_failure:
  assumes "cjose_jwe_import P input_json = Inl e0"
    and "cjose_jws_import P input_json = Inr jws"
    and "cjose_jws_get_plaintext P jws = Inl e"
  shows "\<exists>jwt. oidc_jwt_parse P input_json j_jwt0 keys =
           Returns \<lparr>pr_rc = False, pr_j_jwt = Some jwt,
                    pr_err = Some (E_jws_get_plaintext e), pr_released = []\<rparr>
         \<and> cjose_jws jwt = Some jws"
  using assms
  by (simp add: oidc_jwt_parse_def oidc_jwe_decrypt_def Let_def)

text \<open>
  C2 fails on the code for the stage of plaintext extraction. In the sample
  environment the text \<open>jws-noplain\<close> is no JWE, imports as a JWS, and its plaintext
  cannot be extracted: \<^verbatim>\<open>oidc_jwt_parse\<close> returns \<open>FALSE\<close> and the caller's
  pointer holds the partly built JWT, whose signature handle is set and was not
  released.
\<close>

theorem oidc_jwt_parse_surfaces_partial_jwt:
  "oidc_jwt_parse ext0 ''jws-noplain'' None (Some []) =
     Returns \<lparr>pr_rc = False, pr_j_jwt = Some jwt_noplain,
              pr_err = Some (E_jws_get_plaintext CJOSE_ERR_INVALID_ARG),
              pr_released = []\<rparr>
   \<and> cjose_jws jwt_noplain = Some jws_noplain
   \<and> hdr_alg (header jwt_noplain) = Some ''RS256''"
  by (simp add: oidc_jwt_parse_def oidc_jwe_decrypt_def Let_def jwt_noplain_def
      jws_noplain_def cjose_jws_get_protected_def CJOSE_HDR_ENC_def sample_defs)

section \<open>Kid derivation\<close>

lemma set_or_generate_kid_generated:
  assumes "oidc_jwk_set_or_generate_kid P cj None key_params = Inr cj'"
  shows "\<exists>md h. EVP_get_digestbyname P OIDC_JOSE_ALG_SHA256 = Some md \<and> md key_params = Inr h
           \<and> cj' = cj\<lparr>cj_kid := Some (cjose_base64url_encode h)\<rparr>"
  using assms
  by (auto simp: oidc_jwk_set_or_generate_kid_def oidc_jose_hash_and_base64url_encode_def
      oidc_jose_hash_bytes_def cjose_jwk_set_kid_def split: option.splits sum.splits)

lemma set_or_generate_kid_explicit:
  "oidc_jwk_set_or_generate_kid P cj (Some k) key_params = Inr (cj\<lparr>cj_kid := Some k\<rparr>)"
  by (simp add: oidc_jwk_set_or_generate_kid_def cjose_jwk_set_kid_def)

lemma rsa_pkey_to_jwk_kid:
  assumes "rsa_pkey_to_jwk P pkey None jwk0 err0 = (True, jwk, err)"
  shows "\<exists>(r :: rsa) cj md h.
           cjose_jwk_create_RSA_spec P \<lparr>ks_e = rsa_e r, ks_n = rsa_n r, ks_d = rsa_d r\<rparr> = Inr cj
         \<and> EVP_get_digestbyname P OIDC_JOSE_ALG_SHA256 = Some md
         \<and> md (rsa_n r @ rsa_e r) = Inr h
         \<and> jwk_kid jwk = Some (cjose_base64url_encode h)
         \<and> jwk_cjose_jwk jwk = Some (cj\<lparr>cj_kid := Some (cjose_base64url_encode h)\<rparr>)"
proof -
  from assms obtain r where r: "EVP_PKEY_get1_RSA P pkey = Some r"
    by (auto simp: rsa_pkey_to_jwk_def split: option.splits)
  let ?spec = "\<lparr>ks_e = rsa_e r, ks_n = rsa_n r, ks_d = rsa_d r\<rparr>"
  from assms r obtain cj where cj: "cjose_jwk_create_RSA_spec P ?spec = Inr cj"
    by (auto simp: rsa_pkey_to_jwk_def Let_def split: sum.splits)
  from assms r cj obtain cj' where
    cj': "oidc_jwk_set_or_generate_kid P cj None (rsa_n r @ rsa_e r) = Inr cj'"
    and jwk: "jwk = jwk0\<lparr>jwk_cjose_jwk := Some cj', jwk_kid := cjose_jwk_get_kid cj',
                         jwk_kty := cjose_jwk_get_kty cj'\<rparr>"
    by (auto simp: rsa_pkey_to_jwk_def Let_def split: sum.splits)
  from set_or_generate_kid_generated [OF cj'] obtain md h where
    h: "EVP_get_digestbyname P OIDC_JOSE_ALG_SHA256 = Some md" "md (rsa_n r @ rsa_e r) = Inr h"
    "cj' = cj\<lparr>cj_kid := Some (cjose_base64url_encode h)\<rparr>"
    by blast
  show ?thesis
    by (intro exI [of _ r] exI [of _ cj] exI [of _ md] exI [of _ h])
       (simp add: cj h jwk cjose_jwk_get_kid_def)
qed

lemma rsa_bio_to_jwk_from_pkey:
  assumes "oidc_jwk_rsa_bio_to_jwk P input kid is_private_key = Returns (True, jwk, err)"
  shows "\<exists>pkey jwk0 err0. rsa_pkey_to_jwk P pkey kid jwk0 err0 = (True, jwk, err)"
  using assms
  by (auto simp: oidc_jwk_rsa_bio_to_jwk_def x509_to_jwk_def Let_def
      split: if_splits option.splits run.splits)

text \<open>
  C7, as the code has it. When no explicit kid is supplied, the RSA import and
  \<^verbatim>\<open>oidc_jwk_create_symmetric_key\<close> called with \<^verbatim>\<open>set_kid\<close> \<open>TRUE\<close> give the key
  the kid that is the base64url text of the digest \<^verbatim>\<open>OIDC_JOSE_ALG_SHA256\<close> of the
  fingerprint bytes: the raw secret for a symmetric key, the modulus bytes followed by
  the exponent bytes of the key specification for RSA. The kid is set on the cjose
  key built from that same material. An explicit kid is used as it is. With
  \<^verbatim>\<open>set_kid\<close> \<open>FALSE\<close> \<^verbatim>\<open>oidc_jwk_create_symmetric_key\<close> sets no kid: the JWK has
  the kid of the key as cjose created it.
\<close>

theorem kid_generation:
  "(oidc_jwk_create_symmetric_key P None key True = (Some jwk, err) \<longrightarrow>
      (\<exists>cj md h. cjose_jwk_create_oct_spec P key = Inr cj
         \<and> EVP_get_digestbyname P OIDC_JOSE_ALG_SHA256 = Some md \<and> md key = Inr h
         \<and> jwk_kid jwk = Some (cjose_base64url_encode h)
         \<and> jwk_cjose_jwk jwk = Some (cj\<lparr>cj_kid := Some (cjose_base64url_encode h)\<rparr>)))
   \<and> (oidc_jwk_rsa_bio_to_jwk P input None is_private_key = Returns (True, jwk, err) \<longrightarrow>
      (\<exists>(r :: rsa) cj md h.
         cjose_jwk_create_RSA_spec P \<lparr>ks_e = rsa_e r, ks_n = rsa_n r, ks_d = rsa_d r\<rparr> = Inr cj
         \<and> EVP_get_digestbyname P OIDC_JOSE_ALG_SHA256 = Some md
         \<and> md (rsa_n r @ rsa_e r) = Inr h
         \<and> jwk_kid jwk = Some (cjose_base64url_encode h)
         \<and> jwk_cjose_jwk jwk = Some (cj\<lparr>cj_kid := Some (cjose_base64url_encode h)\<rparr>)))
   \<and> (oidc_jwk_create_symmetric_key P (Some k) key True = (Some jwk, err) \<longrightarrow>
        jwk_kid jwk = Some k)
   \<and> (oidc_jwk_create_symmetric_key P skid key False = (Some jwk, err) \<longrightarrow>
      (\<exists>cj. cjose_jwk_create_oct_spec P key = Inr cj \<and> jwk_kid jwk = cj_kid cj
         \<and> jwk_cjose_jwk jwk = Some cj))"
proof -
  have sym: "\<exists>cj md h. cjose_jwk_create_oct_spec P key = Inr cj
         \<and> EVP_get_digestbyname P OIDC_JOSE_ALG_SHA256 = Some md \<and> md key = Inr h
         \<and> jwk_kid jwk = Some (cjose_base64url_encode h)
         \<and> jwk_cjose_jwk jwk = Some (cj\<lparr>cj_kid := Some (cjose_base64url_encode h)\<rparr>)"
    if a: "oidc_jwk_create_symmetric_key P None key True = (Some jwk, err)"
  proof -
    from a obtain cj where cj: "cjose_jwk_create_oct_spec P key = Inr cj"
      by (auto simp: oidc_jwk_create_symmetric_key_def split: sum.splits)
    from a cj obtain cj' where cj': "oidc_jwk_set_or_generate_kid P cj None key = Inr cj'"
      and jwk: "jwk = oidc_jwk_new\<lparr>jwk_cjose_jwk := Some cj', jwk_kid := cjose_jwk_get_kid cj',
                                   jwk_kty := cjose_jwk_get_kty cj'\<rparr>"
      by (auto simp: oidc_jwk_create_symmetric_key_def split: sum.splits)
    from set_or_generate_kid_generated [OF cj'] cj jwk show ?thesis
      by (auto simp: cjose_jwk_get_kid_def)
  qed
  have rsa: "\<exists>(r :: rsa) cj md h.
         cjose_jwk_create_RSA_spec P \<lparr>ks_e = rsa_e r, ks_n = rsa_n r, ks_d = rsa_d r\<rparr> = Inr cj
         \<and> EVP_get_digestbyname P OIDC_JOSE_ALG_SHA256 = Some md
         \<and> md (rsa_n r @ rsa_e r) = Inr h
         \<and> jwk_kid jwk = Some (cjose_base64url_encode h)
         \<and> jwk_cjose_jwk jwk = Some (cj\<lparr>cj_kid := Some (cjose_base64url_encode h)\<rparr>)"
    if a: "oidc_jwk_rsa_bio_to_jwk P input None is_private_key = Returns (True, jwk, err)"
  proof -
    from rsa_bio_to_jwk_from_pkey [OF a] obtain pkey jwk0 err0 where
      "rsa_pkey_to_jwk P pkey None jwk0 err0 = (True, jwk, err)" by blast
    then show ?thesis by (rule rsa_pkey_to_jwk_kid)
  qed
  have explicit: "jwk_kid jwk = Some k"
    if "oidc_jwk_create_symmetric_key P (Some k) key True = (Some jwk, err)"
    using that
    by (auto simp: oidc_jwk_create_symmetric_key_def set_or_generate_kid_explicit
        cjose_jwk_get_kid_def split: sum.splits)
  have unset: "\<exists>cj. cjose_jwk_create_oct_spec P key = Inr cj \<and> jwk_kid jwk = cj_kid cj
         \<and> jwk_cjose_jwk jwk = Some cj"
    if "oidc_jwk_create_symmetric_key P skid key False = (Some jwk, err)"
    using that
    by (auto simp: oidc_jwk_create_symmetric_key_def cjose_jwk_get_kid_def split: sum.splits)
  from sym rsa explicit unset show ?thesis by blast
qed

theorem kid_generation_witness:
  "oidc_jwk_create_symmetric_key ext0 None ''secret'' True = (Some jwk_secret, None)
   \<and> jwk_kid jwk_secret = Some (cjose_base64url_encode (rev ''secret''))
   \<and> oidc_jwk_rsa_bio_to_jwk ext0 (BIO_read_filename_new cert_pem_file) None False
       = Returns (True, jwk_cert, None)
   \<and> jwk_kid jwk_cert = Some (cjose_base64url_encode (rev (''N'' @ ''E'')))"
proof -
  have md: "EVP_get_digestbyname ext0 OIDC_JOSE_ALG_SHA256 = Some (\<lambda>input. Inr (rev input))"
    by (simp add: ext0_def OIDC_JOSE_ALG_SHA256_def)
  have sym: "oidc_jwk_create_symmetric_key ext0 None ''secret'' True = (Some jwk_secret, None)"
    by (simp add: oidc_jwk_create_symmetric_key_def kid_defs jwk_secret_def sample_defs)
  from kid_generation [where P = ext0 and key = "''secret''" and jwk = jwk_secret
                          and err = None] sym
  obtain m h where "EVP_get_digestbyname ext0 OIDC_JOSE_ALG_SHA256 = Some m"
    "m ''secret'' = Inr h" "jwk_kid jwk_secret = Some (cjose_base64url_encode h)"
    by blast
  with md have a: "jwk_kid jwk_secret = Some (cjose_base64url_encode (rev ''secret''))"
    by auto
  note cert = rsa_bio_to_jwk_cert_file
  from kid_generation [where P = ext0 and jwk = jwk_cert and err = None
                          and input = "BIO_read_filename_new cert_pem_file"
                          and is_private_key = False] cert
  obtain r :: rsa and cj m h where
    cj: "cjose_jwk_create_RSA_spec ext0 \<lparr>ks_e = rsa_e r, ks_n = rsa_n r, ks_d = rsa_d r\<rparr> = Inr cj"
    and m: "EVP_get_digestbyname ext0 OIDC_JOSE_ALG_SHA256 = Some m"
    and h: "m (rsa_n r @ rsa_e r) = Inr h"
    and k: "jwk_kid jwk_cert = Some (cjose_base64url_encode h)"
    and c: "jwk_cjose_jwk jwk_cert = Some (cj\<lparr>cj_kid := Some (cjose_base64url_encode h)\<rparr>)"
    by blast
  from cj c have ne: "rsa_n r = ''N'' \<and> rsa_e r = ''E''"
    by (auto simp: ext0_def jwk_cert_def)
  from md m have "m = (\<lambda>input. Inr (rev input))" by simp
  with h ne have "h = rev (''N'' @ ''E'')" by simp
  with k have b: "jwk_kid jwk_cert = Some (cjose_base64url_encode (rev (''N'' @ ''E'')))"
    by (simp only:)
  from sym a cert b show ?thesis by blast
qed

text \<open>
  The claim as stated fails: \<^verbatim>\<open>oidc_jwk_create_symmetric_key\<close> without an explicit
  kid and with \<^verbatim>\<open>set_kid\<close> \<open>FALSE\<close> returns a JWK that has no kid, not the
  fingerprint.
\<close>

theorem kid_not_generated_counterexample:
  "oidc_jwk_create_symmetric_key ext0 None ''secret'' False =
     (Some (jwk_secret\<lparr>jwk_kid := None,
              jwk_cjose_jwk := Some \<lparr>cj_kty = 3, cj_kid = None,
                                       cj_keydata = KeyOct ''secret''\<rparr>\<rparr>), None)
   \<and> oidc_jose_hash_and_base64url_encode ext0 OIDC_JOSE_ALG_SHA256 ''secret''
       = Some ''dGVyY2Vz''"
  by (simp add: oidc_jwk_create_symmetric_key_def kid_defs jwk_secret_def sample_defs)

section \<open>The x5c-only JWK\<close>

lemma wrap_lines_unfold:
  "0 < n \<Longrightarrow> wrap_lines n s = (if s = [] then [] else take n s # wrap_lines n (drop n s))"
  by (cases n; cases s) simp_all

lemma concat_wrap_lines: "concat (wrap_lines n s) = s"
  by (induction n s rule: wrap_lines.induct) simp_all

lemma wrap_lines_nonempty: "l \<in> set (wrap_lines n s) \<Longrightarrow> l \<noteq> []"
  by (induction n s rule: wrap_lines.induct) (auto split: if_splits)

lemma wrap_lines_width: "0 < n \<Longrightarrow> l \<in> set (wrap_lines n s) \<Longrightarrow> length l \<le> n"
  by (induction n s rule: wrap_lines.induct) (auto split: if_splits)

lemma wrap_lines_full:
  "0 < n \<Longrightarrow> Suc i < length (wrap_lines n s) \<Longrightarrow> length (wrap_lines n s ! i) = n"
proof (induction n s arbitrary: i rule: wrap_lines.induct)
  case (1 s)
  then show ?case by simp
next
  case (2 n)
  then show ?case by simp
next
  case (3 n c cs)
  show ?case
  proof (cases i)
    case 0
    from 3(3) have "wrap_lines (Suc n) (drop (Suc n) (c # cs)) \<noteq> []"
      by auto
    then have "drop (Suc n) (c # cs) \<noteq> []"
      by (auto simp del: drop_Suc_Cons drop_eq_Nil)
    then have "Suc n \<le> length (c # cs)"
      by (simp del: drop_Suc_Cons)
    with 0 show ?thesis by (simp add: min_def)
  next
    case (Suc j)
    with 3 show ?thesis by simp
  qed
qed

text \<open>
  The formatting loop and the wrapping of the specification agree wherever the loop
  stays inside the string: it returns the lines of the text from position \<open>i\<close> on
  when what is left splits into lines of 75 characters and possibly a last one of 74,
  and it reads past the end of the string otherwise.
\<close>

lemma x5c_pem_loop_wrap:
  "x5c_pem_loop s i acc =
     (if (length s - i) mod 75 \<in> {0, 74}
      then Returns (acc @ concat (map (\<lambda>l. l @ [CHR 0x0A]) (wrap_lines 75 (drop i s))))
      else Fault OverRead)"
proof (induction s i acc rule: x5c_pem_loop.induct)
  case (1 s i acc)
  show ?case
  proof (cases "i < length s")
    case False
    then show ?thesis
      by (subst x5c_pem_loop.simps) (simp add: wrap_lines_unfold)
  next
    case inside: True
    show ?thesis
    proof (cases "length s - i < 74")
      case True
      with inside have "(length s - i) mod 75 \<notin> {0, 74}" by auto
      with inside True show ?thesis
        by (subst x5c_pem_loop.simps) simp
    next
      case False
      have ne: "drop i s \<noteq> []" using inside by simp
      have w: "wrap_lines 75 (drop i s) = take 75 (drop i s) # wrap_lines 75 (drop (i + 75) s)"
        using ne by (subst wrap_lines_unfold) (simp_all add: add.commute)
      have m: "(length s - (i + 75)) mod 75 \<in> {0, 74} \<longleftrightarrow> (length s - i) mod 75 \<in> {0, 74}"
      proof (cases "length s - i = 74")
        case True
        then show ?thesis by simp
      next
        case neq: False
        with False have "75 \<le> length s - i" by simp
        then have "(length s - i) mod 75 = (length s - i - 75) mod 75"
          by (rule le_mod_geq)
        then show ?thesis by simp
      qed
      from 1 [OF inside False] inside False w m show ?thesis
        by (subst x5c_pem_loop.simps) simp
    qed
  qed
qed

lemma x5c_pem_certificate:
  "x5c_pem s = (if length s mod 75 \<in> {0, 74} then Returns (pem_certificate s)
                else Fault OverRead)"
  by (simp add: x5c_pem_def pem_certificate_def x5c_pem_loop_wrap
      OIDC_JOSE_CERT_BEGIN_def OIDC_JOSE_CERT_END_def)

text \<open>
  The wrapping, as the specification words it: the lines together are the payload,
  none is empty or longer than 75, and all but the last have exactly 75 characters.
\<close>

lemma wrap_lines_75:
  "concat (wrap_lines 75 s) = s
   \<and> (\<forall>l \<in> set (wrap_lines 75 s). l \<noteq> [] \<and> length l \<le> 75)
   \<and> (\<forall>i. Suc i < length (wrap_lines 75 s) \<longrightarrow> length (wrap_lines 75 s ! i) = 75)"
  using concat_wrap_lines [of 75 s] wrap_lines_nonempty [of _ 75 s]
    wrap_lines_width [of 75 _ s] wrap_lines_full [of 75 _ s]
  by auto

text \<open>
  After a read of a memory BIO, \<^verbatim>\<open>BIO_reset\<close> leaves nothing in it, and the next
  read finds nothing.
\<close>

lemma mem_bio_reset_read:
  "fst (bio_read reader' (BIO_reset (snd (bio_read reader (BIO_puts_new s))))) = None"
  by (simp add: bio_read_def BIO_reset_def BIO_puts_new_def Let_def)

lemma mem_bio_to_jwk:
  "oidc_jwk_rsa_bio_to_jwk P (BIO_puts_new s) kid False =
     (case fst (bio_read (PEM_read_bio_PUBKEY P) (BIO_puts_new s)) of
        None \<Rightarrow> Returns (False, oidc_jwk_new, Some (E_openssl ''PEM_read_bio_X509_AUX''))
      | Some pkey \<Rightarrow> Returns (rsa_pkey_to_jwk P pkey kid oidc_jwk_new None))"
  by (simp add: oidc_jwk_rsa_bio_to_jwk_def x509_to_jwk_def mem_bio_reset_read
      split: option.splits)

text \<open>
  What \<^verbatim>\<open>oidc_jwk_parse_rsa_x5c\<close> does with an \<open>x5c\<close> array that begins with a
  string, in every environment: unless the length of the string leaves 0 or 74
  characters for the last line, the formatting reads past its end. Otherwise the PEM
  text of the specification is put in a memory BIO and given to
  \<^verbatim>\<open>oidc_jwk_rsa_bio_to_jwk\<close>; the text is first read as a public key, and when
  that finds none, \<^verbatim>\<open>BIO_reset\<close> (jose.c 1161) empties the BIO, so that the read
  of the certificate finds nothing and the call returns \<open>FALSE\<close>, with no key.
\<close>

lemma oidc_jwk_parse_rsa_x5c_paths:
  assumes "json_object_get j OIDC_JOSE_HDR_X5C = Some (JArray (JString s_x5c # others))"
  shows "oidc_jwk_parse_rsa_x5c P j =
     (if length s_x5c mod 75 \<in> {0, 74} then
        (case fst (bio_read (PEM_read_bio_PUBKEY P) (BIO_puts_new (pem_certificate s_x5c))) of
           None \<Rightarrow> Returns (False, None, Some (E_openssl ''PEM_read_bio_X509_AUX''))
         | Some pkey \<Rightarrow>
             Returns (let r = rsa_pkey_to_jwk P pkey
                                (case json_object_get j CJOSE_HDR_KID of
                                   Some vk \<Rightarrow> json_string_value vk | None \<Rightarrow> None)
                                oidc_jwk_new None
                      in (fst r, jwk_cjose_jwk (fst (snd r)), snd (snd r))))
      else Fault OverRead)"
  using assms
  by (simp add: oidc_jwk_parse_rsa_x5c_def json_is_array_def json_array_get_def
      json_string_value_def x5c_pem_certificate mem_bio_to_jwk Let_def oidc_jwk_new_def
      split: option.splits)

text \<open>
  C9, where the code departs from it. The PEM framing is the one the claim describes,
  but the text is not decoded as a certificate. For the x5c-only JWK whose certificate
  entry has 74 characters, in every environment: the text is read as a public key,
  and if that read finds none the call returns \<open>FALSE\<close> with the error of
  \<^verbatim>\<open>PEM_read_bio_X509_AUX\<close> and no key, as it does in the sample environment, whose
  certificate reader accepts any text. For the x5c-only JWK whose certificate entry
  is \<open>MIIB\<close>, the formatting loop reads past the end of the entry.
\<close>

theorem oidc_jwk_parse_rsa_x5c_certificate_not_read:
  "oidc_jwk_parse_rsa_x5c P jwk_x5c_74 =
     (case fst (bio_read (PEM_read_bio_PUBKEY P) (BIO_puts_new (pem_certificate x5c_74))) of
        None \<Rightarrow> Returns (False, None, Some (E_openssl ''PEM_read_bio_X509_AUX''))
      | Some pkey \<Rightarrow>
          Returns (let r = rsa_pkey_to_jwk P pkey None oidc_jwk_new None
                   in (fst r, jwk_cjose_jwk (fst (snd r)), snd (snd r))))
   \<and> pem_certificate x5c_74 =
       ''-----BEGIN CERTIFICATE-----'' @ [CHR 0x0A] @ x5c_74 @ [CHR 0x0A]
       @ ''-----END CERTIFICATE-----'' @ [CHR 0x0A]
   \<and> oidc_jwk_parse_rsa_x5c ext0 jwk_x5c_74 =
       Returns (False, None, Some (E_openssl ''PEM_read_bio_X509_AUX''))
   \<and> oidc_jwk_parse_rsa_x5c P jwk_x5c_only = Fault OverRead"
proof -
  have x74: "json_object_get jwk_x5c_74 OIDC_JOSE_HDR_X5C = Some (JArray (JString x5c_74 # []))"
    by (simp add: json_object_get_def jwk_x5c_74_def OIDC_JOSE_HDR_X5C_def)
  have kid: "(case json_object_get jwk_x5c_74 CJOSE_HDR_KID of
                Some vk \<Rightarrow> json_string_value vk | None \<Rightarrow> None) = None"
    by (simp add: json_object_get_def jwk_x5c_74_def CJOSE_HDR_KID_def)
  have len: "length x5c_74 = 74"
    by (simp add: x5c_74_def)
  have a: "oidc_jwk_parse_rsa_x5c Q jwk_x5c_74 =
     (case fst (bio_read (PEM_read_bio_PUBKEY Q) (BIO_puts_new (pem_certificate x5c_74))) of
        None \<Rightarrow> Returns (False, None, Some (E_openssl ''PEM_read_bio_X509_AUX''))
      | Some pkey \<Rightarrow>
          Returns (let r = rsa_pkey_to_jwk Q pkey None oidc_jwk_new None
                   in (fst r, jwk_cjose_jwk (fst (snd r)), snd (snd r))))" for Q
    using oidc_jwk_parse_rsa_x5c_paths [OF x74, of Q] by (simp only: kid len) simp
  have b: "pem_certificate x5c_74 =
       ''-----BEGIN CERTIFICATE-----'' @ [CHR 0x0A] @ x5c_74 @ [CHR 0x0A]
       @ ''-----END CERTIFICATE-----'' @ [CHR 0x0A]"
  proof -
    from len have "x5c_74 \<noteq> []" by auto
    with len show ?thesis by (simp add: pem_certificate_def wrap_lines_unfold)
  qed
  have pub: "fst (bio_read (PEM_read_bio_PUBKEY ext0) (BIO_puts_new s)) = None" for s
    by (simp add: bio_read_def ext0_def Let_def)
  have c: "oidc_jwk_parse_rsa_x5c ext0 jwk_x5c_74 =
       Returns (False, None, Some (E_openssl ''PEM_read_bio_X509_AUX''))"
    by (simp add: a pub)
  have x4: "json_object_get jwk_x5c_only OIDC_JOSE_HDR_X5C = Some (JArray (JString ''MIIB'' # []))"
    by (simp add: json_object_get_def jwk_x5c_only_def OIDC_JOSE_HDR_X5C_def)
  have d: "oidc_jwk_parse_rsa_x5c P jwk_x5c_only = Fault OverRead"
    using oidc_jwk_parse_rsa_x5c_paths [OF x4, of P] by simp
  from a [of P] b c d show ?thesis by blast
qed
end
